theory Spec2Isabelle
  imports Complex_Main
begin

section \<open>JavaScript values used by the model\<close>

text \<open>
  The sources are JavaScript/TypeScript. A call either returns or throws, and a call
  that throws has the result \<open>Throws\<close>; the only exception the simulation can raise by
  itself is the TypeError of reading a property of \<open>undefined\<close>. Reading an array out of
  range gives \<open>undefined\<close>, modelled by \<open>None\<close>. Every value of
  \<open>Math.floor(Math.random() * n)\<close> and of \<open>Date.now()\<close> is a parameter of the function
  that draws it.
\<close>

datatype 'a js_result = Returned 'a | Throws

definition js_nth :: "'a list \<Rightarrow> nat \<Rightarrow> 'a option" where
  "js_nth xs i = (if i < length xs then Some (xs ! i) else None)"

fun string_of_nat :: "nat \<Rightarrow> string" where
  "string_of_nat n =
     (if n < 10 then [''0123456789'' ! n]
      else string_of_nat (n div 10) @ [''0123456789'' ! (n mod 10)])"

declare string_of_nat.simps [simp del]

fun findIndex :: "('a \<Rightarrow> bool) \<Rightarrow> 'a list \<Rightarrow> int" where
  "findIndex P [] = - 1"
| "findIndex P (x # xs) =
     (if P x then 0
      else (let r = findIndex P xs in if r < 0 then - 1 else r + 1))"

section \<open>The simulated game room (the RabbitMQ demo simulation)\<close>

text \<open>
  The demo simulation and the continuous simulation share \<open>createGameRoom\<close>,
  \<open>getNextPlayer\<close>, \<open>makeMove\<close> and \<open>usePowerUp\<close> word for word (the palette apart, which
  is the demo's here); \<open>checkGameOver\<close> is the continuous simulation's.
\<close>

record player =
  player_id :: string
  player_name :: string
  player_color :: string

record move =
  column :: nat
  row :: nat

text \<open>
  \<open>board\<close> is a JavaScript array of arrays of player ids, bottom disc first; an index
  that holds no array is \<open>None\<close>.
\<close>

record game =
  roomId :: string
  players :: "player list"
  currentTurn :: string
  turnTimeLimit :: nat
  isActive :: bool
  board :: "nat \<rightharpoonup> string list"
  startTime :: int
  lastEventTime :: int
  eventCount :: nat
  gameOver :: bool

definition PLAYER_COLORS :: "string list" where
  "PLAYER_COLORS = [''red'', ''yellow'', ''green'', ''blue'', ''purple'', ''orange'']"

definition POWER_UP_TYPES :: "string list" where
  "POWER_UP_TYPES =
     [''double_drop'', ''column_bomb'', ''gravity_flip'', ''undo_move'', ''column_block'']"

text \<open>\<open>Array(7).fill().map(() => [])\<close>\<close>

definition emptyBoard :: "nat \<rightharpoonup> string list" where
  "emptyBoard = (\<lambda>c. if c < 7 then Some [] else None)"

text \<open>
  \<open>createGameRoom(numPlayers)\<close>; \<open>roomUuid\<close> is the value of the first \<open>uuidv4()\<close> call
  and \<open>playerUuids i\<close> the value of the call for player \<open>i\<close>. With no player,
  \<open>players[0].id\<close> throws.
\<close>

definition newPlayer :: "(nat \<Rightarrow> string) \<Rightarrow> nat \<Rightarrow> player" where
  "newPlayer playerUuids i =
     \<lparr>player_id = ''player'' @ string_of_nat (i + 1) @ ''_'' @ take 4 (playerUuids i),
      player_name = ''Player '' @ string_of_nat (i + 1),
      player_color = PLAYER_COLORS ! (i mod length PLAYER_COLORS)\<rparr>"

definition createGameRoom :: "string \<Rightarrow> (nat \<Rightarrow> string) \<Rightarrow> nat \<Rightarrow> int \<Rightarrow> game js_result" where
  "createGameRoom roomUuid playerUuids numPlayers now =
     (let ps = map (newPlayer playerUuids) [0 ..< numPlayers] in
      case ps of
        [] \<Rightarrow> Throws
      | p # _ \<Rightarrow>
          Returned \<lparr>roomId = ''room_'' @ take 8 roomUuid, players = ps,
                    currentTurn = player_id p, turnTimeLimit = 30, isActive = True,
                    board = emptyBoard, startTime = now, lastEventTime = now,
                    eventCount = 0, gameOver = False\<rparr>)"

text \<open>
  \<open>getNextPlayer(game)\<close>. \<open>findIndex\<close> gives \<open>-1\<close> when no player has the id; with no
  player at all the remainder is \<open>NaN\<close>, \<open>players[NaN]\<close> is \<open>undefined\<close> and \<open>.id\<close> throws.
\<close>

definition getNextPlayer :: "game \<Rightarrow> string js_result" where
  "getNextPlayer game =
     (let currentIndex = findIndex (\<lambda>p. player_id p = currentTurn game) (players game) in
      if players game = [] then Throws
      else
        (let nextIndex = (currentIndex + 1) mod int (length (players game)) in
         Returned (player_id (players game ! nat nextIndex))))"

text \<open>
  \<open>makeMove(game, playerId, column)\<close>: the result is \<open>null\<close> (\<open>None\<close>) for a full column,
  the pair of column and row otherwise. The game object is mutated in place, so the
  state is returned also when \<open>getNextPlayer\<close> throws after the push.
\<close>

definition makeMove :: "game \<Rightarrow> string \<Rightarrow> nat \<Rightarrow> int \<Rightarrow> move option js_result \<times> game" where
  "makeMove game playerId col now =
     (let game1 = (case board game col of
                     None \<Rightarrow> game\<lparr>board := (board game)(col \<mapsto> [])\<rparr>
                   | Some _ \<Rightarrow> game);
          stack = (case board game col of None \<Rightarrow> [] | Some s \<Rightarrow> s);
          r = length stack
      in if r \<ge> 6 then (Returned None, game1)
         else
           (let game2 = game1\<lparr>board := (board game1)(col \<mapsto> stack @ [playerId])\<rparr> in
            case getNextPlayer game2 of
              Throws \<Rightarrow> (Throws, game2)
            | Returned nxt \<Rightarrow>
                (Returned (Some \<lparr>column = col, row = r\<rparr>),
                 game2\<lparr>currentTurn := nxt, lastEventTime := now,
                       eventCount := eventCount game2 + 1\<rparr>)))"

text \<open>
  The \<open>effect\<close> object of a power-up. A field that the source leaves out is \<open>None\<close> or
  \<open>False\<close> here, which is how every reader of the object (a truthiness test) sees it.
\<close>

record effect =
  drop1 :: "move option"
  drop2 :: "move option"
  bombed :: bool
  flipped :: bool
  undone :: bool
  blocked :: bool
  eff_column :: "nat option"

definition no_effect :: effect where
  "no_effect = \<lparr>drop1 = None, drop2 = None, bombed = False, flipped = False,
                 undone = False, blocked = False, eff_column = None\<rparr>"

text \<open>The random draws of one \<open>usePowerUp\<close> call, in the order of the source.\<close>

record pu_draws =
  r_powerUp :: nat
  r_targetColumn :: nat
  r_col1 :: nat
  r_col2 :: nat
  r_randomCol :: nat

definition finishPowerUp ::
  "string option \<Rightarrow> int \<Rightarrow> effect \<Rightarrow> game \<Rightarrow> (string option \<times> effect) js_result \<times> game" where
  "finishPowerUp powerUpId now eff game =
     (Returned (powerUpId, eff),
      game\<lparr>lastEventTime := now, eventCount := eventCount game + 1\<rparr>)"

definition usePowerUp ::
  "game \<Rightarrow> string \<Rightarrow> pu_draws \<Rightarrow> int \<Rightarrow> (string option \<times> effect) js_result \<times> game" where
  "usePowerUp game playerId d now =
     (let powerUpId = js_nth POWER_UP_TYPES (r_powerUp d);
          targetColumn = r_targetColumn d
      in
      if powerUpId = Some ''double_drop'' then
        (case makeMove game playerId (r_col1 d) now of
           (Throws, g1) \<Rightarrow> (Throws, g1)
         | (Returned d1, g1) \<Rightarrow>
             (case makeMove g1 playerId (r_col2 d) now of
                (Throws, g2) \<Rightarrow> (Throws, g2)
              | (Returned d2, g2) \<Rightarrow>
                  finishPowerUp powerUpId now (no_effect\<lparr>drop1 := d1, drop2 := d2\<rparr>) g2))
      else if powerUpId = Some ''column_bomb'' then
        finishPowerUp powerUpId now
          (no_effect\<lparr>bombed := True, eff_column := Some targetColumn\<rparr>)
          (game\<lparr>board := (board game)(targetColumn \<mapsto> [])\<rparr>)
      else if powerUpId = Some ''gravity_flip'' then
        finishPowerUp powerUpId now (no_effect\<lparr>flipped := True\<rparr>) game
      else if powerUpId = Some ''undo_move'' then
        (let randomCol = r_randomCol d in
         case board game randomCol of
           None \<Rightarrow> finishPowerUp powerUpId now no_effect game
         | Some s \<Rightarrow>
             if length s > 0 then
               finishPowerUp powerUpId now
                 (no_effect\<lparr>undone := True, eff_column := Some randomCol\<rparr>)
                 (game\<lparr>board := (board game)(randomCol \<mapsto> butlast s)\<rparr>)
             else finishPowerUp powerUpId now no_effect game)
      else if powerUpId = Some ''column_block'' then
        finishPowerUp powerUpId now
          (no_effect\<lparr>blocked := True, eff_column := Some targetColumn\<rparr>) game
      else finishPowerUp powerUpId now no_effect game)"

text \<open>
  One step of the simulation loop that touches the room: a move or a power-up. The
  loop catches every exception and goes on with the mutated room, so a step keeps the
  state also when the call throws.
\<close>

datatype sim_op = Move string nat int | PowerUp string pu_draws int

fun step :: "game \<Rightarrow> sim_op \<Rightarrow> game" where
  "step game (Move playerId col now) = snd (makeMove game playerId col now)"
| "step game (PowerUp playerId d now) = snd (usePowerUp game playerId d now)"

definition run :: "game \<Rightarrow> sim_op list \<Rightarrow> game" where
  "run game ops = foldl step game ops"

text \<open>The capacity invariant: no column holds more than six discs.\<close>

definition cap_ok :: "game \<Rightarrow> bool" where
  "cap_ok game \<longleftrightarrow> (\<forall>c s. board game c = Some s \<longrightarrow> length s \<le> 6)"

text \<open>The stack of a column, an absent column being empty.\<close>

definition stack_of :: "game \<Rightarrow> nat \<Rightarrow> string list" where
  "stack_of game c = (case board game c of None \<Rightarrow> [] | Some s \<Rightarrow> s)"


subsection \<open>The end of a simulated game (the continuous simulation)\<close>












section \<open>The client's game state (the \<open>useGame\<close> hook)\<close>

text \<open>
  Fields of \<open>GameState\<close> carry the prefix \<open>gs_\<close>, as several of them share their name
  with a field of the simulated room. The client's board is an object keyed by the
  decimal string of the column number. Numbers that hold times are reals.

  The inventory \<open>powerUps\<close> is a plain object: \<open>gs_powerUps\<close> holds its own properties
  and \<open>gs_powerUpsProto\<close> its prototype, \<open>None\<close> for \<open>Object.prototype\<close> and \<open>Some n\<close> for
  the object \<open>{remainingUses: n}\<close> (whose own prototype is \<open>Object.prototype\<close>), the only
  other prototype that the hook can give it.
\<close>

record Room =
  room_id :: string
  room_name :: string
  room_players :: "player list"
  max_players :: nat
  is_active :: bool
  current_turn :: "string option"
  random_events_enabled :: bool

record BoardCell =
  cell_playerId :: "string option"
  cell_row :: nat
  cell_column :: nat

record PlayerPowerUp =
  pu_id :: string
  pu_name :: string
  pu_description :: string
  remainingUses :: int

text \<open>
  A value of the inventory object: a power-up, or the object \<open>{remainingUses: n}\<close> that
  the \<open>power_up_used\<close> handler builds for a key which the inventory only inherits.
  \<open>set_uses n e\<close> is \<open>{...e, remainingUses: n}\<close>.
\<close>

datatype inventory_entry = Listed PlayerPowerUp | Bare int

fun entry_uses :: "inventory_entry \<Rightarrow> int" where
  "entry_uses (Listed pu) = remainingUses pu"
| "entry_uses (Bare n) = n"

fun set_uses :: "int \<Rightarrow> inventory_entry \<Rightarrow> inventory_entry" where
  "set_uses n (Listed pu) = Listed (pu\<lparr>remainingUses := n\<rparr>)"
| "set_uses n (Bare m) = Bare n"

text \<open>
  The property names that every plain object inherits from \<open>Object.prototype\<close>. Their
  values are functions, but for \<open>__proto__\<close>, which reads the prototype of the object and,
  when assigned an object, replaces it.
\<close>

definition Object_prototype_keys :: "string list" where
  "Object_prototype_keys =
     [''constructor'', ''__defineGetter__'', ''__defineSetter__'', ''hasOwnProperty'',
      ''__lookupGetter__'', ''__lookupSetter__'', ''isPrototypeOf'',
      ''propertyIsEnumerable'', ''toString'', ''valueOf'', ''__proto__'',
      ''toLocaleString'']"

record RandomEvent =
  ev_id :: string
  ev_name :: string
  ev_description :: string
  ev_effect :: string
  ev_duration :: nat
  activeUntil :: nat

record WinState =
  ws_winner :: "string option"
  ws_winType :: "string option"
  ws_positions :: "(nat \<times> nat) list option"

record ChatEntry =
  entry_id :: string
  entry_playerId :: string
  entry_message :: string
  entry_timestamp :: nat

datatype connection_state = Connected | Disconnected | Connecting | Reconnecting | Failed

record GameState =
  gs_room :: "Room option"
  gs_player :: "player option"
  gs_isConnected :: bool
  gs_isMyTurn :: bool
  gs_board :: "string \<rightharpoonup> BoardCell list"
  gs_powerUps :: "string \<rightharpoonup> inventory_entry"
  gs_powerUpsProto :: "int option"
  gs_activeEvents :: "RandomEvent list"
  gs_isGravityFlipped :: bool
  gs_winState :: WinState
  gs_messages :: "ChatEntry list"
  gs_error :: "string option"
  gs_connectionState :: connection_state
  gs_turnTimeLimit :: real
  gs_turnStartTime :: real
  gs_remainingTime :: real

text \<open>\<open>x || d\<close> for an optional number: \<open>undefined\<close> and \<open>0\<close> are falsy.\<close>

definition js_or :: "real option \<Rightarrow> real \<Rightarrow> real" where
  "js_or x d = (case x of None \<Rightarrow> d | Some v \<Rightarrow> if v = 0 then d else v)"

subsection \<open>The \<open>turn_timeout\<close> handler\<close>

record TurnTimeoutMessage =
  tt_player_id :: string
  tt_next_turn :: string
  tt_remaining_time :: "real option"

text \<open>\<open>playerId\<close> is the hook's own player; \<open>now\<close> is \<open>Date.now() / 1000\<close>.\<close>

definition turn_timeout :: "string \<Rightarrow> real \<Rightarrow> TurnTimeoutMessage \<Rightarrow> GameState \<Rightarrow> GameState" where
  "turn_timeout playerId now message state =
     state\<lparr>gs_isMyTurn := (tt_next_turn message = playerId),
           gs_turnStartTime := now,
           gs_remainingTime := js_or (tt_remaining_time message) (gs_turnTimeLimit state),
           gs_error := Some ((if tt_player_id message = playerId then ''Your''
                              else ''Opponent'' @ [CHR 0x27] @ ''s'')
                             @ '' turn timed out!'')\<rparr>"

subsection \<open>The \<open>power_up_used\<close> handler\<close>

record PowerUpUsedMessage =
  pm_player_id :: string
  pm_power_up_id :: string
  pm_remaining_uses :: int
  pm_effect :: "effect option"

definition cells :: "(string \<rightharpoonup> BoardCell list) \<Rightarrow> string \<Rightarrow> BoardCell list" where
  "cells b k = (case b k of None \<Rightarrow> [] | Some cs \<Rightarrow> cs)"

definition ensureColumn ::
  "(string \<rightharpoonup> BoardCell list) \<Rightarrow> string \<Rightarrow> (string \<rightharpoonup> BoardCell list)" where
  "ensureColumn b k = (case b k of None \<Rightarrow> b(k \<mapsto> []) | Some _ \<Rightarrow> b)"

text \<open>
  The local values of the handler. \<open>now\<close> is \<open>Date.now()\<close>.

  \<open>updatedPowerUps\<close> starts as the copy \<open>{...state.powerUps}\<close>: the own properties, with
  \<open>Object.prototype\<close> as prototype. \<open>message.power_up_id in updatedPowerUps\<close> holds for an
  own key and for an inherited one. The value read at an inherited key is a function or
  \<open>Object.prototype\<close>, whose spread is empty, so the object assigned is
  \<open>{remainingUses: n}\<close>; assigned at \<open>__proto__\<close> it becomes the prototype, at any other
  key an own property. The result is the pair of the own properties and the prototype.
\<close>

definition updatedPowerUps ::
  "string \<Rightarrow> PowerUpUsedMessage \<Rightarrow> GameState
     \<Rightarrow> (string \<rightharpoonup> inventory_entry) \<times> int option" where
  "updatedPowerUps playerId message state =
     (let own = gs_powerUps state;
          k = pm_power_up_id message;
          n = pm_remaining_uses message
      in if pm_player_id message = playerId then
           (case own k of
              Some e \<Rightarrow> (own(k \<mapsto> set_uses n e), None)
            | None \<Rightarrow>
                if k = ''__proto__'' then (own, Some n)
                else if k \<in> set Object_prototype_keys then (own(k \<mapsto> Bare n), None)
                else (own, None))
         else (own, None))"

definition powerUpName :: "PowerUpUsedMessage \<Rightarrow> string" where
  "powerUpName message =
     map (\<lambda>c. if c = CHR ''_'' then CHR '' '' else c) (pm_power_up_id message)"

definition playerName :: "PowerUpUsedMessage \<Rightarrow> GameState \<Rightarrow> string" where
  "playerName message state =
     (case gs_room state of
        None \<Rightarrow> ''A player''
      | Some room \<Rightarrow>
          (case find (\<lambda>p. player_id p = pm_player_id message) (room_players room) of
             None \<Rightarrow> ''A player''
           | Some p \<Rightarrow> if player_name p = [] then ''A player'' else player_name p))"

definition systemMessages :: "nat \<Rightarrow> PowerUpUsedMessage \<Rightarrow> GameState \<Rightarrow> ChatEntry list" where
  "systemMessages now message state =
     gs_messages state @
       [\<lparr>entry_id = ''system-'' @ string_of_nat now, entry_playerId = ''system'',
         entry_message = playerName message state @ '' used '' @ powerUpName message @ ''!'',
         entry_timestamp = now\<rparr>]"

definition ownCell :: "PowerUpUsedMessage \<Rightarrow> move \<Rightarrow> BoardCell" where
  "ownCell message d =
     \<lparr>cell_playerId = Some (pm_player_id message), cell_row = row d, cell_column = column d\<rparr>"

text \<open>
  The end of the handler: the new state with the board, the inventory and the chat
  replaced and the error cleared.
\<close>

definition powerUpDone ::
  "string \<Rightarrow> nat \<Rightarrow> PowerUpUsedMessage \<Rightarrow> GameState \<Rightarrow> (string \<rightharpoonup> BoardCell list)
     \<Rightarrow> GameState" where
  "powerUpDone playerId now message state b =
     state\<lparr>gs_board := b,
           gs_powerUps := fst (updatedPowerUps playerId message state),
           gs_powerUpsProto := snd (updatedPowerUps playerId message state),
           gs_messages := systemMessages now message state, gs_error := None\<rparr>"

text \<open>A bomb effect without a column throws at \<open>effect.column.toString()\<close>.\<close>

definition power_up_used ::
  "string \<Rightarrow> nat \<Rightarrow> PowerUpUsedMessage \<Rightarrow> GameState \<Rightarrow> GameState js_result" where
  "power_up_used playerId now message state =
     (let eff = (case pm_effect message of None \<Rightarrow> no_effect | Some e \<Rightarrow> e);
          updatedBoard = gs_board state
      in case (drop1 eff, drop2 eff) of
           (Some d1, Some d2) \<Rightarrow>
             (let column1 = string_of_nat (column d1);
                  column2 = string_of_nat (column d2);
                  b1 = ensureColumn (ensureColumn updatedBoard column1) column2;
                  b2 = b1(column1 \<mapsto> cells b1 column1 @ [ownCell message d1]);
                  b3 = b2(column2 \<mapsto> cells b2 column2 @ [ownCell message d2])
              in Returned (powerUpDone playerId now message state b3))
         | _ \<Rightarrow>
             if bombed eff then
               (case eff_column eff of
                  None \<Rightarrow> Throws
                | Some c \<Rightarrow>
                    (case updatedBoard (string_of_nat c) of
                       None \<Rightarrow> Returned (powerUpDone playerId now message state updatedBoard)
                     | Some _ \<Rightarrow>
                         Returned (powerUpDone playerId now message state
                                     (updatedBoard(string_of_nat c \<mapsto> [])))))
             else if flipped eff \<and> pm_power_up_id message = ''gravity_flip'' then
               Returned ((powerUpDone playerId now message state updatedBoard)
                           \<lparr>gs_isGravityFlipped := \<not> gs_isGravityFlipped state\<rparr>)
             else Returned (powerUpDone playerId now message state updatedBoard))"

subsection \<open>The \<open>game_over\<close> handler\<close>



section \<open>The client's socket service (\<open>WebSocketService\<close>)\<close>

datatype ws_error = WebSocketConnectionError string | WebSocketMessageError string

datatype ready_state = CONNECTING | OPEN | CLOSING | CLOSED

text \<open>The browser's socket: its state and the frames handed to it so far.\<close>

record WebSocket =
  readyState :: ready_state
  sent :: "string list"

text \<open>The objects that \<open>attemptReconnect\<close> passes to \<open>notifyHandlers\<close>.\<close>

datatype ws_notice = ReconnectingNotice nat nat nat | ReconnectFailedNotice nat nat

fun notice_type :: "ws_notice \<Rightarrow> string" where
  "notice_type (ReconnectingNotice attempt maxAttempts timeout) = ''reconnecting''"
| "notice_type (ReconnectFailedNotice attempts maxAttempts) = ''reconnect_failed''"

text \<open>
  A registered handler is a callback that acts on the rest of the program, the world
  \<open>'w\<close>, and may throw. The handler sets are lists in order of registration, which is
  the order in which \<open>forEach\<close> calls them. \<open>pendingTimers\<close> counts the reconnections
  scheduled by \<open>setTimeout\<close>.
\<close>

record 'w WebSocketService =
  socket :: "WebSocket option"
  messageHandlers :: "string \<rightharpoonup> (ws_notice \<Rightarrow> 'w \<Rightarrow> 'w js_result) list"
  errorHandlers :: "(ws_error \<Rightarrow> 'w \<Rightarrow> 'w js_result) list"
  reconnectInterval :: nat
  reconnectAttempts :: nat
  maxReconnectAttempts :: nat
  svc_playerId :: "string option"
  autoReconnect :: bool
  isReconnecting :: bool
  connectionUrl :: string
  pendingTimers :: nat

text \<open>
  A value that a call threw, as the template literal of the \<open>catch\<close> block renders it
  (\<open>`${error}`\<close>). Rendering throws in turn for a Symbol and for an object that has no
  \<open>toString\<close>: such a value is \<open>Unrenderable\<close>.
\<close>

datatype thrown = Rendered string | Unrenderable

text \<open>
  What the service does not decide: whether \<open>JSON.stringify\<close> returns the text of the
  message or throws, and whether the socket's \<open>send\<close> takes the text or throws.
\<close>

record 'm ws_env =
  JSON_stringify :: "'m \<Rightarrow> thrown + string"
  socket_send :: "string \<Rightarrow> thrown option"

fun run_handlers :: "('e \<Rightarrow> 'w \<Rightarrow> 'w js_result) list \<Rightarrow> 'e \<Rightarrow> 'w \<Rightarrow> 'w js_result" where
  "run_handlers [] e w = Returned w"
| "run_handlers (h # hs) e w =
     (case h e w of Throws \<Rightarrow> Throws | Returned w' \<Rightarrow> run_handlers hs e w')"

definition notifyErrorHandlers :: "'w WebSocketService \<Rightarrow> ws_error \<Rightarrow> 'w \<Rightarrow> 'w js_result" where
  "notifyErrorHandlers svc err w = run_handlers (errorHandlers svc) err w"

definition handlersFor ::
  "'w WebSocketService \<Rightarrow> string \<Rightarrow> (ws_notice \<Rightarrow> 'w \<Rightarrow> 'w js_result) list" where
  "handlersFor svc messageType =
     (case messageHandlers svc messageType of None \<Rightarrow> [] | Some hs \<Rightarrow> hs)"

definition notifyHandlers :: "'w WebSocketService \<Rightarrow> ws_notice \<Rightarrow> 'w \<Rightarrow> 'w js_result" where
  "notifyHandlers svc notice w =
     (case run_handlers (handlersFor svc (notice_type notice)) notice w of
        Throws \<Rightarrow> Throws
      | Returned w1 \<Rightarrow> run_handlers (handlersFor svc ''*'') notice w1)"

definition attemptReconnect ::
  "'w WebSocketService \<Rightarrow> 'w \<Rightarrow> ('w WebSocketService \<times> 'w) js_result" where
  "attemptReconnect svc w =
     (if isReconnecting svc then Returned (svc, w)
      else if autoReconnect svc \<and> reconnectAttempts svc < maxReconnectAttempts svc then
        (let svc1 = svc\<lparr>isReconnecting := True\<rparr> in
         case notifyHandlers svc1
                (ReconnectingNotice (reconnectAttempts svc + 1) (maxReconnectAttempts svc)
                   (reconnectInterval svc)) w of
           Throws \<Rightarrow> Throws
         | Returned w1 \<Rightarrow> Returned (svc1\<lparr>pendingTimers := pendingTimers svc1 + 1\<rparr>, w1))
      else if reconnectAttempts svc \<ge> maxReconnectAttempts svc then
        (case notifyErrorHandlers svc
                (WebSocketConnectionError ''Maximum reconnection attempts reached'') w of
           Throws \<Rightarrow> Throws
         | Returned w1 \<Rightarrow>
             (case notifyHandlers svc
                     (ReconnectFailedNotice (reconnectAttempts svc) (maxReconnectAttempts svc))
                     w1 of
                Throws \<Rightarrow> Throws
              | Returned w2 \<Rightarrow> Returned (svc, w2)))
      else Returned (svc, w))"

text \<open>
  The \<open>catch\<close> block of \<open>send\<close>. It builds the error from the rendered value first, so
  a value that cannot be rendered makes the block throw before any handler is called.
\<close>

definition sendCaught ::
  "'w WebSocketService \<Rightarrow> thrown \<Rightarrow> 'w \<Rightarrow> (bool \<times> 'w WebSocketService \<times> 'w) js_result" where
  "sendCaught svc error w =
     (case error of
        Unrenderable \<Rightarrow> Throws
      | Rendered rendered \<Rightarrow>
          (case notifyErrorHandlers svc
                  (WebSocketMessageError (''Failed to send message: '' @ rendered)) w of
             Throws \<Rightarrow> Throws
           | Returned w1 \<Rightarrow> Returned (False, svc, w1)))"

text \<open>The \<open>else\<close> branch of \<open>send\<close>: no socket, or a socket that is not open.\<close>

definition sendNotConnected ::
  "'w WebSocketService \<Rightarrow> 'w \<Rightarrow> (bool \<times> 'w WebSocketService \<times> 'w) js_result" where
  "sendNotConnected svc w =
     (case notifyErrorHandlers svc
             (WebSocketConnectionError ''Cannot send message - WebSocket is not connected'')
             w of
        Throws \<Rightarrow> Throws
      | Returned w1 \<Rightarrow>
          if \<not> isReconnecting svc \<and> autoReconnect svc then
            (case attemptReconnect svc w1 of
               Throws \<Rightarrow> Throws
             | Returned (svc', w2) \<Rightarrow> Returned (False, svc', w2))
          else Returned (False, svc, w1))"

definition send ::
  "'m ws_env \<Rightarrow> 'w WebSocketService \<Rightarrow> 'm \<Rightarrow> 'w
     \<Rightarrow> (bool \<times> 'w WebSocketService \<times> 'w) js_result" where
  "send env svc message w =
     (case socket svc of
        None \<Rightarrow> sendNotConnected svc w
      | Some sock \<Rightarrow>
          if readyState sock = OPEN then
            (case JSON_stringify env message of
               Inl error \<Rightarrow> sendCaught svc error w
             | Inr payload \<Rightarrow>
                 (case socket_send env payload of
                    Some error \<Rightarrow> sendCaught svc error w
                  | None \<Rightarrow>
                      Returned (True,
                        svc\<lparr>socket := Some (sock\<lparr>sent := sent sock @ [payload]\<rparr>)\<rparr>, w)))
          else sendNotConnected svc w)"

text \<open>\<open>isConnected()\<close>\<close>

definition isConnected :: "'w WebSocketService \<Rightarrow> bool" where
  "isConnected svc =
     (case socket svc of None \<Rightarrow> False | Some sock \<Rightarrow> readyState sock = OPEN)"

text \<open>
  The message was handed to the socket: there is an open socket, the serialisation
  returned a text and the socket took it.
\<close>

definition handed_over :: "'m ws_env \<Rightarrow> 'w WebSocketService \<Rightarrow> 'm \<Rightarrow> bool" where
  "handed_over env svc message \<longleftrightarrow>
     isConnected svc \<and>
     (case JSON_stringify env message of
        Inl _ \<Rightarrow> False
      | Inr payload \<Rightarrow> socket_send env payload = None)"

text \<open>The value that the \<open>try\<close> block of \<open>send\<close> throws, if it throws.\<close>

definition thrown_in_try :: "'m ws_env \<Rightarrow> 'm \<Rightarrow> thrown option" where
  "thrown_in_try env message =
     (case JSON_stringify env message of
        Inl error \<Rightarrow> Some error
      | Inr payload \<Rightarrow> socket_send env payload)"

definition never_throw :: "('e \<Rightarrow> 'w \<Rightarrow> 'w js_result) list \<Rightarrow> bool" where
  "never_throw hs \<longleftrightarrow> (\<forall>h \<in> set hs. \<forall>e w. h e w \<noteq> Throws)"

definition handlers_never_throw :: "'w WebSocketService \<Rightarrow> bool" where
  "handlers_never_throw svc \<longleftrightarrow>
     never_throw (errorHandlers svc) \<and> (\<forall>t. never_throw (handlersFor svc t))"

section \<open>Commands of the \<open>useGame\<close> hook\<close>

text \<open>
  The messages the hook sends. \<open>makeMove\<close> and \<open>usePowerUp\<close> of the hook carry the
  suffix \<open>_hook\<close>, the simulation having functions of the same names. The error handler
  that the hook registers with the service acts on the game state, so the world of the
  service's handlers is \<open>GameState\<close>.
\<close>

datatype client_message =
  MoveMessage nat
  | PowerUpMessage string "(string \<times> nat) list"
  | ChatMessage string
  | RequestTimeUpdate

definition makeMove_hook ::
  "client_message ws_env \<Rightarrow> GameState \<Rightarrow> GameState WebSocketService \<Rightarrow> nat
     \<Rightarrow> (bool \<times> GameState WebSocketService \<times> GameState) js_result" where
  "makeMove_hook env gameState svc col =
     (if \<not> gs_isMyTurn gameState then
        Returned (False, svc,
          gameState\<lparr>gs_error := Some (''It'' @ [CHR 0x27] @ ''s not your turn yet!'')\<rparr>)
      else if \<not> gs_isConnected gameState then
        Returned (False, svc,
          gameState\<lparr>gs_error := Some
            ''You are disconnected from the game server. Please wait for reconnection.''\<rparr>)
      else
        (case send env svc (MoveMessage col) gameState of
           Throws \<Rightarrow> Throws
         | Returned (success, svc', state') \<Rightarrow>
             if \<not> success then
               Returned (False, svc',
                 state'\<lparr>gs_error := Some ''Failed to send move. Please try again.''\<rparr>)
             else Returned (True, svc', state')))"

text \<open>
  \<open>gameState.powerUps[powerUpId]\<close>: the own property if there is one, else what the
  prototype chain gives: a member of \<open>Object.prototype\<close> (a function, or for \<open>__proto__\<close>
  the prototype itself), or, under the prototype \<open>{remainingUses: n}\<close>, the number \<open>n\<close>
  at \<open>remainingUses\<close> and that object at \<open>__proto__\<close>.
\<close>

datatype js_lookup =
  Undefined
  | EntryValue inventory_entry
  | PrototypeMember
  | NumberValue int

definition lookupPowerUp :: "GameState \<Rightarrow> string \<Rightarrow> js_lookup" where
  "lookupPowerUp gameState k =
     (case gs_powerUps gameState k of
        Some e \<Rightarrow> EntryValue e
      | None \<Rightarrow>
          (case gs_powerUpsProto gameState of
             None \<Rightarrow> if k \<in> set Object_prototype_keys then PrototypeMember else Undefined
           | Some n \<Rightarrow>
               if k = ''remainingUses'' then NumberValue n
               else if k = ''__proto__'' then EntryValue (Bare n)
               else if k \<in> set Object_prototype_keys then PrototypeMember
               else Undefined))"

text \<open>
  \<open>!v || v.remainingUses <= 0\<close>: on a function, on \<open>Object.prototype\<close> and on a number
  \<open>remainingUses\<close> is \<open>undefined\<close>, and \<open>undefined <= 0\<close> is false; the number 0 is falsy.
\<close>

definition noUsesLeft :: "GameState \<Rightarrow> string \<Rightarrow> bool" where
  "noUsesLeft gameState powerUpId =
     (case lookupPowerUp gameState powerUpId of
        Undefined \<Rightarrow> True
      | EntryValue e \<Rightarrow> entry_uses e \<le> 0
      | PrototypeMember \<Rightarrow> False
      | NumberValue n \<Rightarrow> n = 0)"

definition usePowerUp_hook ::
  "client_message ws_env \<Rightarrow> GameState \<Rightarrow> GameState WebSocketService \<Rightarrow> string
     \<Rightarrow> (string \<times> nat) list
     \<Rightarrow> (bool \<times> GameState WebSocketService \<times> GameState) js_result" where
  "usePowerUp_hook env gameState svc powerUpId targetData =
     (if noUsesLeft gameState powerUpId then
        Returned (False, svc,
          gameState\<lparr>gs_error := Some
            (''You don'' @ [CHR 0x27] @ ''t have any uses left for this power-up!'')\<rparr>)
      else if \<not> gs_isMyTurn gameState then
        Returned (False, svc,
          gameState\<lparr>gs_error := Some ''You can only use power-ups during your turn!''\<rparr>)
      else if \<not> gs_isConnected gameState then
        Returned (False, svc,
          gameState\<lparr>gs_error := Some
            ''You are disconnected from the game server. Please wait for reconnection.''\<rparr>)
      else
        (case send env svc (PowerUpMessage powerUpId targetData) gameState of
           Throws \<Rightarrow> Throws
         | Returned (success, svc', state') \<Rightarrow>
             if \<not> success then
               Returned (False, svc',
                 state'\<lparr>gs_error := Some ''Failed to use power-up. Please try again.''\<rparr>)
             else Returned (True, svc', state')))"

text \<open>
  The error handler that the hook registers with \<open>onError\<close>. \<open>reconnecting\<close> is the
  value of \<open>isAttemptingReconnection()\<close> when the state update runs.
\<close>

definition hook_error_handler :: "bool \<Rightarrow> ws_error \<Rightarrow> GameState \<Rightarrow> GameState js_result" where
  "hook_error_handler reconnecting error state =
     Returned (state\<lparr>gs_error := Some
                  (case error of
                     WebSocketConnectionError m \<Rightarrow> ''Connection error: '' @ m
                   | WebSocketMessageError m \<Rightarrow> ''Message error: '' @ m),
                gs_connectionState := (if reconnecting then Reconnecting else Disconnected)\<rparr>)"

text \<open>The inventory and the board the hook starts with.\<close>

definition defaultPowerUps :: "string \<rightharpoonup> inventory_entry" where
  "defaultPowerUps = map_of
     [(''double_drop'', Listed \<lparr>pu_id = ''double_drop'', pu_name = ''Double Drop'',
         pu_description = ''Drop two discs in a single turn'', remainingUses = 1\<rparr>),
      (''undo_move'', Listed \<lparr>pu_id = ''undo_move'', pu_name = ''Undo Move'',
         pu_description = ''Remove the last disc placed'', remainingUses = 1\<rparr>),
      (''column_bomb'', Listed \<lparr>pu_id = ''column_bomb'', pu_name = ''Column Bomb'',
         pu_description = ''Clear all discs from a column'', remainingUses = 1\<rparr>),
      (''column_block'', Listed \<lparr>pu_id = ''column_block'', pu_name = ''Column Block'',
         pu_description = ''Block a column for 1 turn'', remainingUses = 1\<rparr>),
      (''gravity_flip'', Listed \<lparr>pu_id = ''gravity_flip'', pu_name = ''Gravity Flip'',
         pu_description = ''Flip gravity to normal (downward) for a column'',
         remainingUses = 1\<rparr>)]"

definition initializeBoard :: "string \<rightharpoonup> BoardCell list" where
  "initializeBoard = map_of (map (\<lambda>col. (string_of_nat col, [])) [0 ..< 7])"

section \<open>Concrete rooms\<close>

definition demo_players :: "player list" where
  "demo_players =
     [\<lparr>player_id = ''player1_aaaa'', player_name = ''Player 1'', player_color = ''red''\<rparr>,
      \<lparr>player_id = ''player2_bbbb'', player_name = ''Player 2'', player_color = ''yellow''\<rparr>]"

definition demo_uuids :: "nat \<Rightarrow> string" where
  "demo_uuids i = (if i = 0 then ''aaaa1111-2222'' else ''bbbb3333-4444'')"

text \<open>The room that \<open>createGameRoom(2)\<close> returns at time 0.\<close>

definition demo_room :: game where
  "demo_room =
     \<lparr>roomId = ''room_0000abcd'', players = demo_players, currentTurn = ''player1_aaaa'',
      turnTimeLimit = 30, isActive = True, board = emptyBoard, startTime = 0,
      lastEventTime = 0, eventCount = 0, gameOver = False\<rparr>"

text \<open>Six alternating moves into column 0.\<close>

definition six_moves :: "sim_op list" where
  "six_moves =
     [Move ''player1_aaaa'' 0 1, Move ''player2_bbbb'' 0 2, Move ''player1_aaaa'' 0 3,
      Move ''player2_bbbb'' 0 4, Move ''player1_aaaa'' 0 5, Move ''player2_bbbb'' 0 6]"

definition full_stack :: "string list" where
  "full_stack =
     [''player1_aaaa'', ''player2_bbbb'', ''player1_aaaa'', ''player2_bbbb'',
      ''player1_aaaa'', ''player2_bbbb'']"

definition demo_full :: game where
  "demo_full =
     demo_room\<lparr>board := emptyBoard(0 \<mapsto> full_stack), lastEventTime := 6, eventCount := 6\<rparr>"

text \<open>The room after the first five of these moves.\<close>

definition five_stack :: "string list" where
  "five_stack =
     [''player1_aaaa'', ''player2_bbbb'', ''player1_aaaa'', ''player2_bbbb'',
      ''player1_aaaa'']"

definition demo_five :: game where
  "demo_five =
     demo_room\<lparr>board := emptyBoard(0 \<mapsto> five_stack), currentTurn := ''player2_bbbb'',
               lastEventTime := 5, eventCount := 5\<rparr>"

text \<open>Draws that select each power-up of the simulation.\<close>

definition undo_draws :: "nat \<Rightarrow> pu_draws" where
  "undo_draws c = \<lparr>r_powerUp = 3, r_targetColumn = 0, r_col1 = 0, r_col2 = 0, r_randomCol = c\<rparr>"

definition double_drop_draws :: "nat \<Rightarrow> nat \<Rightarrow> pu_draws" where
  "double_drop_draws c1 c2 =
     \<lparr>r_powerUp = 0, r_targetColumn = 0, r_col1 = c1, r_col2 = c2, r_randomCol = 0\<rparr>"

definition bomb_draws :: "nat \<Rightarrow> pu_draws" where
  "bomb_draws c = \<lparr>r_powerUp = 1, r_targetColumn = c, r_col1 = 0, r_col2 = 0, r_randomCol = 0\<rparr>"

section \<open>Concrete client states\<close>

text \<open>
  The client of the second player during a game of the two demo players, when the
  second player holds the turn.
\<close>

definition client_room :: Room where
  "client_room =
     \<lparr>room_id = ''room_0000abcd'', room_name = ''Demo Game Room'',
      room_players = demo_players, max_players = 4, is_active = True,
      current_turn = Some ''player2_bbbb'', random_events_enabled = False\<rparr>"

definition client_state :: GameState where
  "client_state =
     \<lparr>gs_room = Some client_room,
      gs_player = Some \<lparr>player_id = ''player2_bbbb'', player_name = ''Player 2'',
                        player_color = ''yellow''\<rparr>,
      gs_isConnected = True, gs_isMyTurn = True, gs_board = initializeBoard,
      gs_powerUps = defaultPowerUps, gs_powerUpsProto = None, gs_activeEvents = [],
      gs_isGravityFlipped = True,
      gs_winState = \<lparr>ws_winner = None, ws_winType = None, ws_positions = None\<rparr>,
      gs_messages = [], gs_error = None, gs_connectionState = Connected,
      gs_turnTimeLimit = 30, gs_turnStartTime = 100, gs_remainingTime = 5\<rparr>"

text \<open>A service as the class creates it, with the given error handlers registered.\<close>

definition new_service :: "(ws_error \<Rightarrow> 'w \<Rightarrow> 'w js_result) list \<Rightarrow> 'w WebSocketService" where
  "new_service hs =
     \<lparr>socket = None, messageHandlers = Map.empty, errorHandlers = hs,
      reconnectInterval = 5000, reconnectAttempts = 0, maxReconnectAttempts = 5,
      svc_playerId = None, autoReconnect = True, isReconnecting = False,
      connectionUrl = [], pendingTimers = 0\<rparr>"

text \<open>The same service after the connection of the second player has opened.\<close>

definition open_service :: "(ws_error \<Rightarrow> 'w \<Rightarrow> 'w js_result) list \<Rightarrow> 'w WebSocketService" where
  "open_service hs =
     (new_service hs)\<lparr>socket := Some \<lparr>readyState = OPEN, sent = []\<rparr>,
                      svc_playerId := Some ''player2_bbbb'',
                      connectionUrl := ''ws://localhost:8000/ws/player2_bbbb''\<rparr>"

text \<open>An error handler that throws.\<close>

definition throwing_handler :: "ws_error \<Rightarrow> 'w \<Rightarrow> 'w js_result" where
  "throwing_handler error w = Throws"

text \<open>
  An environment in which the messages of the hook are serialised to their JSON text
  and the socket takes every text.
\<close>

definition quoted :: "string \<Rightarrow> string" where
  "quoted s = [CHR 0x22] @ concat (map (\<lambda>c. if c = CHR 0x22 \<or> c = CHR 0x5C
                                             then [CHR 0x5C, c] else [c]) s) @ [CHR 0x22]"

fun stringify_fields :: "(string \<times> nat) list \<Rightarrow> string" where
  "stringify_fields [] = []"
| "stringify_fields [(k, v)] = quoted k @ '':'' @ string_of_nat v"
| "stringify_fields ((k, v) # kvs) =
     quoted k @ '':'' @ string_of_nat v @ '','' @ stringify_fields kvs"

fun stringify_message :: "client_message \<Rightarrow> string" where
  "stringify_message (MoveMessage col) =
     ''{'' @ quoted ''type'' @ '':'' @ quoted ''move'' @ '','' @ quoted ''column'' @ '':''
       @ string_of_nat col @ ''}''"
| "stringify_message (PowerUpMessage powerUpId targetData) =
     ''{'' @ quoted ''type'' @ '':'' @ quoted ''power_up'' @ '','' @ quoted ''power_up_id''
       @ '':'' @ quoted powerUpId @ '','' @ quoted ''target_data'' @ '':{''
       @ stringify_fields targetData @ ''}}''"
| "stringify_message (ChatMessage m) =
     ''{'' @ quoted ''type'' @ '':'' @ quoted ''chat'' @ '','' @ quoted ''message'' @ '':''
       @ quoted m @ ''}''"
| "stringify_message RequestTimeUpdate =
     ''{'' @ quoted ''type'' @ '':'' @ quoted ''request_time_update'' @ ''}''"

definition browser_env :: "client_message ws_env" where
  "browser_env = \<lparr>JSON_stringify = (\<lambda>m. Inr (stringify_message m)),
                   socket_send = (\<lambda>payload. None)\<rparr>"

text \<open>The same environment with a socket that throws on every text.\<close>

definition failing_env :: "client_message ws_env" where
  "failing_env = browser_env\<lparr>socket_send := (\<lambda>payload. Some (Rendered ''NetworkError''))\<rparr>"

text \<open>
  \<open>send\<close> takes any value. \<open>SymbolThrower\<close> is an object whose \<open>toJSON\<close> method throws a
  Symbol, which \<open>JSON.stringify\<close> passes on.
\<close>

datatype any_message = Plain client_message | SymbolThrower

definition any_env :: "any_message ws_env" where
  "any_env =
     \<lparr>JSON_stringify = (\<lambda>m. case m of
                           Plain c \<Rightarrow> Inr (stringify_message c)
                         | SymbolThrower \<Rightarrow> Inl Unrenderable),
      socket_send = (\<lambda>payload. None)\<rparr>"

text \<open>Two \<open>turn_timeout\<close> messages for a timeout scheduled for the first player.\<close>

definition stale_timeout :: "string \<Rightarrow> TurnTimeoutMessage" where
  "stale_timeout next =
     \<lparr>tt_player_id = ''player1_aaaa'', tt_next_turn = next, tt_remaining_time = None\<rparr>"

text \<open>The message that reports the second player's column bomb on column 3.\<close>

definition bomb_message :: PowerUpUsedMessage where
  "bomb_message =
     \<lparr>pm_player_id = ''player2_bbbb'', pm_power_up_id = ''column_bomb'',
      pm_remaining_uses = 0,
      pm_effect = Some (no_effect\<lparr>bombed := True, eff_column := Some 3\<rparr>)\<rparr>"

text \<open>
  A message about the second player's use of a power-up whose id is the given key,
  with seven uses left and no effect.
\<close>

definition inherited_message :: "string \<Rightarrow> PowerUpUsedMessage" where
  "inherited_message k =
     \<lparr>pm_player_id = ''player2_bbbb'', pm_power_up_id = k, pm_remaining_uses = 7,
      pm_effect = None\<rparr>"

text \<open>The same client while the first player holds the turn.\<close>

definition waiting_state :: GameState where
  "waiting_state = client_state\<lparr>gs_isMyTurn := False\<rparr>"

text \<open>The same client after its column bomb is used up.\<close>

definition spent_bomb :: PlayerPowerUp where
  "spent_bomb = \<lparr>pu_id = ''column_bomb'', pu_name = ''Column Bomb'',
                  pu_description = ''Clear all discs from a column'', remainingUses = 0\<rparr>"

definition spent_state :: GameState where
  "spent_state =
     client_state\<lparr>gs_powerUps := defaultPowerUps(''column_bomb'' \<mapsto> Listed spent_bomb)\<rparr>"






section \<open>Proofs\<close>

subsection \<open>The concrete rooms are reachable\<close>

lemma string_of_nat_digit: "n < 10 \<Longrightarrow> string_of_nat n = [''0123456789'' ! n]"
  by (simp add: string_of_nat.simps)

lemma createGameRoom_demo:
  "createGameRoom ''0000abcd-ef01'' demo_uuids 2 0 = Returned demo_room"
  by (simp add: createGameRoom_def newPlayer_def demo_room_def demo_players_def demo_uuids_def
      PLAYER_COLORS_def string_of_nat_digit upt_rec)

lemma run_six_moves: "run demo_room six_moves = demo_full"
  by (simp add: run_def six_moves_def demo_room_def demo_full_def full_stack_def
      demo_players_def makeMove_def getNextPlayer_def emptyBoard_def Let_def fun_upd_twist)

lemma stack_of_demo_full: "stack_of demo_full 0 = full_stack \<and> stack_of demo_full 2 = []"
  by (simp add: stack_of_def demo_full_def emptyBoard_def)

subsection \<open>Rooms that the simulation creates\<close>

lemma string_of_nat_not_Nil: "string_of_nat n \<noteq> []"
  by (subst string_of_nat.simps) simp

lemma digit_in_digits: "d < 10 \<Longrightarrow> ''0123456789'' ! d \<in> set ''0123456789''"
  by (rule nth_mem) simp

lemma string_of_nat_digits: "set (string_of_nat n) \<subseteq> set ''0123456789''"
proof (induction n rule: string_of_nat.induct)
  case (1 n)
  show ?case
  proof (cases "n < 10")
    case True
    then show ?thesis
      using digit_in_digits [of n] by (subst string_of_nat.simps) simp
  next
    case False
    have "n mod 10 < 10" by simp
    then have "''0123456789'' ! (n mod 10) \<in> set ''0123456789''" by (rule digit_in_digits)
    then show ?thesis
      using False "1.IH" by (subst string_of_nat.simps) simp
  qed
qed

lemma digit_inj:
  assumes "a < 10" and "b < 10" and "''0123456789'' ! a = ''0123456789'' ! b"
  shows "a = b"
proof -
  have "distinct ''0123456789''" by simp
  moreover have "a < length ''0123456789''" "b < length ''0123456789''"
    using assms by simp_all
  ultimately show ?thesis using assms(3) nth_eq_iff_index_eq by blast
qed

lemma string_of_nat_inj: "string_of_nat m = string_of_nat n \<Longrightarrow> m = n"
proof (induction m arbitrary: n rule: string_of_nat.induct)
  case (1 m)
  show ?case
  proof (cases "m < 10")
    case m: True
    show ?thesis
    proof (cases "n < 10")
      case True
      then show ?thesis
        using m "1.prems" digit_inj [of m n] by (simp add: string_of_nat_digit)
    next
      case False
      then have "string_of_nat n
                   = string_of_nat (n div 10) @ [''0123456789'' ! (n mod 10)]"
        by (subst string_of_nat.simps) simp
      then show ?thesis
        using m "1.prems" string_of_nat_not_Nil [of "n div 10"]
        by (simp add: string_of_nat_digit)
    qed
  next
    case m: False
    then have sm: "string_of_nat m
                     = string_of_nat (m div 10) @ [''0123456789'' ! (m mod 10)]"
      by (subst string_of_nat.simps) simp
    show ?thesis
    proof (cases "n < 10")
      case True
      then show ?thesis
        using sm "1.prems" string_of_nat_not_Nil [of "m div 10"]
        by (simp add: string_of_nat_digit)
    next
      case False
      then have sn: "string_of_nat n
                       = string_of_nat (n div 10) @ [''0123456789'' ! (n mod 10)]"
        by (subst string_of_nat.simps) simp
      from "1.prems" sm sn have
        e: "string_of_nat (m div 10) = string_of_nat (n div 10)"
        and l: "''0123456789'' ! (m mod 10) = ''0123456789'' ! (n mod 10)"
        by simp_all
      have "m div 10 = n div 10" using "1.IH" [OF m e] .
      moreover have "m mod 10 = n mod 10"
        using digit_inj [of "m mod 10" "n mod 10"] l by simp
      ultimately show ?thesis by (metis div_mult_mod_eq)
    qed
  qed
qed

lemma prefix_before_separator:
  assumes "xs @ c # r1 = ys @ c # r2" and "c \<notin> set xs" and "c \<notin> set ys"
  shows "xs = ys"
proof -
  have x: "\<And>x. x \<in> set xs \<Longrightarrow> x \<noteq> c" and y: "\<And>y. y \<in> set ys \<Longrightarrow> y \<noteq> c"
    using assms(2,3) by auto
  have "takeWhile (\<lambda>x. x \<noteq> c) (xs @ c # r1) = xs"
    using x by (simp add: takeWhile_append2)
  moreover have "takeWhile (\<lambda>x. x \<noteq> c) (ys @ c # r2) = ys"
    using y by (simp add: takeWhile_append2)
  ultimately show ?thesis using assms(1) by simp
qed

lemma newPlayer_id_inj: "player_id (newPlayer us i) = player_id (newPlayer us j) \<Longrightarrow> i = j"
proof -
  assume "player_id (newPlayer us i) = player_id (newPlayer us j)"
  then have e: "string_of_nat (i + 1) @ CHR ''_'' # take 4 (us i)
                  = string_of_nat (j + 1) @ CHR ''_'' # take 4 (us j)"
    by (simp add: newPlayer_def)
  have "CHR ''_'' \<notin> set (string_of_nat (i + 1))" "CHR ''_'' \<notin> set (string_of_nat (j + 1))"
    using string_of_nat_digits [of "i + 1"] string_of_nat_digits [of "j + 1"] by auto
  then have "string_of_nat (i + 1) = string_of_nat (j + 1)"
    using prefix_before_separator [OF e] by blast
  then show "i = j" using string_of_nat_inj by fastforce
qed

lemma createGameRoom_players:
  assumes "createGameRoom roomUuid playerUuids numPlayers t0 = Returned game"
  shows "players game \<noteq> [] \<and> length (players game) = numPlayers
         \<and> distinct (map player_id (players game))
         \<and> currentTurn game = player_id (players game ! 0)"
proof -
  have n: "0 < numPlayers"
    using assms by (cases numPlayers) (simp_all add: createGameRoom_def)
  then have up: "[0 ..< numPlayers] = 0 # [Suc 0 ..< numPlayers]"
    by (simp add: upt_conv_Cons)
  have ps: "players game = map (newPlayer playerUuids) [0 ..< numPlayers]"
    and ct: "currentTurn game = player_id (newPlayer playerUuids 0)"
    using assms by (auto simp: createGameRoom_def Let_def up)
  have "inj_on (\<lambda>i. player_id (newPlayer playerUuids i)) (set [0 ..< numPlayers])"
    using newPlayer_id_inj by (auto intro: inj_onI)
  then have d: "distinct (map player_id (players game))"
    by (simp add: ps distinct_map comp_def)
  have p0: "players game ! 0 = newPlayer playerUuids 0"
    using n by (simp add: ps)
  show ?thesis
    using n d ct p0 by (simp add: ps)
qed

section \<open>Dropping a disc\<close>

lemma getNextPlayer_Returned:
  "players game \<noteq> [] \<Longrightarrow> \<exists>nxt. getNextPlayer game = Returned nxt"
  by (simp add: getNextPlayer_def Let_def)

text \<open>
  Claim C8. In a room with at least one seated player, a drop into a column that holds
  fewer than six discs puts one disc of the dropping player on top of the column's
  stack, leaves every other column as it was, and returns the row of the new disc, which
  is the length the stack had before the drop. Every room that the simulation creates
  or reaches has a seated player (\<open>reachable_room\<close> below).
\<close>

theorem makeMove_appends:
  assumes "players game \<noteq> []"
    and "stack = (case board game col of None \<Rightarrow> [] | Some s \<Rightarrow> s)"
    and "length stack < 6"
  shows "\<exists>game'. makeMove game playerId col now
            = (Returned (Some \<lparr>column = col, row = length stack\<rparr>), game')
          \<and> board game' col = Some (stack @ [playerId])
          \<and> (\<forall>c. c \<noteq> col \<longrightarrow> board game' c = board game c)"
proof -
  define game1 where
    "game1 = (case board game col of
                None \<Rightarrow> game\<lparr>board := (board game)(col \<mapsto> [])\<rparr> | Some _ \<Rightarrow> game)"
  define game2 where "game2 = game1\<lparr>board := (board game1)(col \<mapsto> stack @ [playerId])\<rparr>"
  have ps: "players game2 \<noteq> []"
    using assms(1) by (simp add: game2_def game1_def split: option.splits)
  then obtain nxt where nxt: "getNextPlayer game2 = Returned nxt"
    using getNextPlayer_Returned by blast
  have others: "\<forall>c. c \<noteq> col \<longrightarrow> board game2 c = board game c"
    by (simp add: game2_def game1_def split: option.splits)
  have "makeMove game playerId col now
          = (Returned (Some \<lparr>column = col, row = length stack\<rparr>),
             game2\<lparr>currentTurn := nxt, lastEventTime := now,
                   eventCount := eventCount game2 + 1\<rparr>)"
    using assms(2,3) nxt
    by (simp add: makeMove_def Let_def game2_def game1_def split: option.splits)
  moreover have "board game2 col = Some (stack @ [playerId])"
    by (simp add: game2_def)
  ultimately show ?thesis using others by simp
qed

theorem makeMove_appends_witness:
  "players demo_room \<noteq> [] \<and> length ([] :: string list) < 6 \<and>
   (\<exists>game'. makeMove demo_room ''player1_aaaa'' 3 1
        = (Returned (Some \<lparr>column = 3, row = 0\<rparr>), game')
      \<and> board game' 3 = Some [''player1_aaaa'']
      \<and> (\<forall>c. c \<noteq> 3 \<longrightarrow> board game' c = board demo_room c))"
  using makeMove_appends [of demo_room "[]" 3 "''player1_aaaa''" 1]
  by (simp add: demo_room_def demo_players_def emptyBoard_def)

section \<open>The capacity of a column\<close>

lemma makeMove_full:
  "board game col = Some s \<Longrightarrow> 6 \<le> length s
     \<Longrightarrow> makeMove game playerId col now = (Returned None, game)"
  by (simp add: makeMove_def Let_def)

lemma makeMove_board:
  "board (snd (makeMove game playerId col now)) =
     (if length (stack_of game col) < 6
      then (board game)(col \<mapsto> stack_of game col @ [playerId])
      else board game)"
  by (auto simp: makeMove_def Let_def stack_of_def split: option.splits js_result.splits)

lemma makeMove_cap_ok:
  assumes "cap_ok game"
  shows "cap_ok (snd (makeMove game playerId col now))"
proof (cases "length (stack_of game col) < 6")
  case True
  then show ?thesis
    using assms unfolding cap_ok_def makeMove_board by auto
next
  case False
  then show ?thesis
    using assms unfolding cap_ok_def makeMove_board by simp
qed

lemma finishPowerUp_board [simp]:
  "board (snd (finishPowerUp powerUpId now eff game)) = board game"
  by (simp add: finishPowerUp_def)

lemma usePowerUp_cap_ok:
  assumes "cap_ok game"
  shows "cap_ok (snd (usePowerUp game playerId d now))"
proof (cases "js_nth POWER_UP_TYPES (r_powerUp d) = Some ''double_drop''")
  case True
  obtain r1 g1 where m1: "makeMove game playerId (r_col1 d) now = (r1, g1)"
    by (cases "makeMove game playerId (r_col1 d) now")
  obtain r2 g2 where m2: "makeMove g1 playerId (r_col2 d) now = (r2, g2)"
    by (cases "makeMove g1 playerId (r_col2 d) now")
  have g1: "cap_ok g1"
    using makeMove_cap_ok [OF assms, of playerId "r_col1 d" now] m1 by simp
  have g2: "cap_ok g2"
    using makeMove_cap_ok [OF g1, of playerId "r_col2 d" now] m2 by simp
  show ?thesis
    using True m1 m2 g1 g2
    by (simp add: usePowerUp_def cap_ok_def split: js_result.splits)
next
  case False
  have bomb: "\<And>c. cap_ok (game\<lparr>board := (board game)(c \<mapsto> [])\<rparr>)"
    using assms by (auto simp: cap_ok_def)
  have undo: "\<And>c s. board game c = Some s
                \<Longrightarrow> cap_ok (game\<lparr>board := (board game)(c \<mapsto> butlast s)\<rparr>)"
    using assms by (fastforce simp: cap_ok_def)
  have fin: "\<And>pid eff g. cap_ok (snd (finishPowerUp pid now eff g)) = cap_ok g"
    by (simp add: cap_ok_def)
  show ?thesis
    using False assms bomb undo
    by (simp add: usePowerUp_def Let_def fin split: option.splits)
qed

lemma makeMove_players [simp]: "players (snd (makeMove game playerId col now)) = players game"
  by (simp add: makeMove_def Let_def split: option.splits js_result.splits)

lemma usePowerUp_players [simp]:
  "players (snd (usePowerUp game playerId d now)) = players game"
proof (cases "js_nth POWER_UP_TYPES (r_powerUp d) = Some ''double_drop''")
  case True
  obtain r1 g1 where m1: "makeMove game playerId (r_col1 d) now = (r1, g1)"
    by (cases "makeMove game playerId (r_col1 d) now")
  obtain r2 g2 where m2: "makeMove g1 playerId (r_col2 d) now = (r2, g2)"
    by (cases "makeMove g1 playerId (r_col2 d) now")
  have g1: "players g1 = players game"
    using makeMove_players [of game playerId "r_col1 d" now] m1 by simp
  have g2: "players g2 = players g1"
    using makeMove_players [of g1 playerId "r_col2 d" now] m2 by simp
  show ?thesis
    using True m1 m2 g1 g2
    by (simp add: usePowerUp_def finishPowerUp_def split: js_result.splits)
next
  case False
  then show ?thesis
    by (simp add: usePowerUp_def Let_def finishPowerUp_def split: option.splits)
qed

lemma run_players: "players (run game ops) = players game"
  unfolding run_def
proof (induction ops arbitrary: game)
  case Nil
  then show ?case by simp
next
  case (Cons op ops)
  have "players (step game op) = players game" by (cases op) simp_all
  then show ?case using Cons.IH [of "step game op"] by simp
qed

lemma step_cap_ok: "cap_ok game \<Longrightarrow> cap_ok (step game op)"
  by (cases op) (simp_all add: makeMove_cap_ok usePowerUp_cap_ok)

lemma run_cap_ok: "cap_ok game \<Longrightarrow> cap_ok (run game ops)"
  unfolding run_def
  by (induction ops arbitrary: game) (simp_all add: step_cap_ok)

lemma createGameRoom_cap_ok:
  "createGameRoom roomUuid playerUuids numPlayers t0 = Returned game \<Longrightarrow> cap_ok game"
  by (auto simp: createGameRoom_def Let_def cap_ok_def emptyBoard_def
      split: list.splits if_splits)

text \<open>
  Every room the simulation can reach has at least one seated player, pairwise
  different player ids and no column with more than six discs.
\<close>

lemma reachable_room:
  assumes "createGameRoom roomUuid playerUuids numPlayers t0 = Returned game0"
  shows "players (run game0 ops) \<noteq> []
         \<and> distinct (map player_id (players (run game0 ops)))
         \<and> cap_ok (run game0 ops)"
  using createGameRoom_players [OF assms] createGameRoom_cap_ok [OF assms]
  by (simp add: run_players run_cap_ok)

text \<open>
  Claim C1. In a freshly created room no column holds more than six discs, and no
  sequence of moves and power-ups, from that room or from any room with this property,
  leads to a room where a column holds more. A drop into a column that holds six discs
  returns \<open>null\<close> and leaves the whole room, the column's stack included, as it was.
\<close>

theorem column_capacity:
  "(createGameRoom roomUuid playerUuids numPlayers t0 = Returned game0
      \<longrightarrow> cap_ok (run game0 ops))
   \<and> (cap_ok game \<longrightarrow> cap_ok (run game ops))
   \<and> (board game col = Some s \<and> 6 \<le> length s
      \<longrightarrow> makeMove game playerId col now = (Returned None, game))"
  using createGameRoom_cap_ok run_cap_ok makeMove_full by blast

theorem column_capacity_witness:
  "createGameRoom ''0000abcd-ef01'' demo_uuids 2 0 = Returned demo_room
   \<and> cap_ok (run demo_room six_moves)
   \<and> cap_ok (run (run demo_room six_moves) six_moves)
   \<and> board (run demo_room six_moves) 0 = Some full_stack \<and> length full_stack = 6
   \<and> makeMove (run demo_room six_moves) ''player1_aaaa'' 0 7
       = (Returned None, run demo_room six_moves)"
proof -
  have b: "board (run demo_room six_moves) 0 = Some full_stack"
    by (simp add: run_six_moves demo_full_def)
  have l: "length full_stack = 6" by (simp add: full_stack_def)
  show ?thesis
    using column_capacity [where roomUuid = "''0000abcd-ef01''"
        and playerUuids = demo_uuids and numPlayers = 2 and ?t0.0 = 0
        and ?game0.0 = demo_room and ops = six_moves
        and game = "run demo_room six_moves" and col = 0 and s = full_stack
        and playerId = "''player1_aaaa''" and now = 7]
      createGameRoom_demo b l
    by simp
qed

section \<open>The result of a move and of a double drop\<close>

lemma getNextPlayer_board [simp]: "getNextPlayer (game\<lparr>board := b\<rparr>) = getNextPlayer game"
  by (simp add: getNextPlayer_def)

lemma getNextPlayer_not_Throws: "players game \<noteq> [] \<Longrightarrow> getNextPlayer game \<noteq> Throws"
  by (simp add: getNextPlayer_def Let_def)

lemma makeMove_result:
  assumes "players game \<noteq> []"
  shows "fst (makeMove game playerId col now)
           = Returned (if length (stack_of game col) < 6
                       then Some \<lparr>column = col, row = length (stack_of game col)\<rparr>
                       else None)"
  using getNextPlayer_not_Throws [OF assms]
  by (auto simp: makeMove_def Let_def stack_of_def split: option.splits js_result.splits)

lemma usePowerUp_double_drop:
  assumes "js_nth POWER_UP_TYPES (r_powerUp d) = Some ''double_drop''"
    and "players game \<noteq> []"
    and "g1 = snd (makeMove game playerId (r_col1 d) now)"
    and "g2 = snd (makeMove g1 playerId (r_col2 d) now)"
  shows "usePowerUp game playerId d now =
           finishPowerUp (Some ''double_drop'') now
             (no_effect\<lparr>drop1 := (if length (stack_of game (r_col1 d)) < 6
                                   then Some \<lparr>column = r_col1 d,
                                              row = length (stack_of game (r_col1 d))\<rparr>
                                   else None),
                        drop2 := (if length (stack_of g1 (r_col2 d)) < 6
                                   then Some \<lparr>column = r_col2 d,
                                              row = length (stack_of g1 (r_col2 d))\<rparr>
                                   else None)\<rparr>) g2"
proof -
  have p1: "players g1 \<noteq> []" using assms(2,3) by simp
  have m1: "makeMove game playerId (r_col1 d) now
              = (Returned (if length (stack_of game (r_col1 d)) < 6
                           then Some \<lparr>column = r_col1 d,
                                      row = length (stack_of game (r_col1 d))\<rparr>
                           else None), g1)"
    using makeMove_result [OF assms(2), of playerId "r_col1 d" now] assms(3)
    by (simp add: prod_eq_iff)
  have m2: "makeMove g1 playerId (r_col2 d) now
              = (Returned (if length (stack_of g1 (r_col2 d)) < 6
                           then Some \<lparr>column = r_col2 d,
                                      row = length (stack_of g1 (r_col2 d))\<rparr>
                           else None), g2)"
    using makeMove_result [OF p1, of playerId "r_col2 d" now] assms(4)
    by (simp add: prod_eq_iff)
  show ?thesis
    using assms(1) by (simp add: usePowerUp_def Let_def m1 m2)
qed

lemma stack_of_makeMove_other:
  "c \<noteq> col \<Longrightarrow> stack_of (snd (makeMove game playerId col now)) c = stack_of game c"
  by (simp add: stack_of_def makeMove_board)

section \<open>Turn rotation\<close>











section \<open>Power-ups of the simulation\<close>

lemma kind_undo_draws: "js_nth POWER_UP_TYPES (r_powerUp (undo_draws c)) = Some ''undo_move''"
  by (simp add: undo_draws_def js_nth_def POWER_UP_TYPES_def)

lemma kind_double_drop_draws:
  "js_nth POWER_UP_TYPES (r_powerUp (double_drop_draws c1 c2)) = Some ''double_drop''"
  by (simp add: double_drop_draws_def js_nth_def POWER_UP_TYPES_def)

lemma kind_bomb_draws: "js_nth POWER_UP_TYPES (r_powerUp (bomb_draws c)) = Some ''column_bomb''"
  by (simp add: bomb_draws_def js_nth_def POWER_UP_TYPES_def)

text \<open>
  Claim C9. The undo power-up takes the top disc, and only the top disc, off the stack
  of the column it addresses when that stack is not empty, and reports \<open>undone\<close> for that
  column; on an empty stack it reports nothing and changes no column. Every other
  column, the seated players and the turn are as before in both cases.
\<close>

theorem undo_move_pops:
  assumes "js_nth POWER_UP_TYPES (r_powerUp d) = Some ''undo_move''"
  shows "\<exists>eff game'.
           usePowerUp game playerId d now = (Returned (Some ''undo_move'', eff), game')
         \<and> (stack_of game (r_randomCol d) \<noteq> [] \<longrightarrow>
              undone eff \<and> eff_column eff = Some (r_randomCol d)
              \<and> board game' (r_randomCol d) = Some (butlast (stack_of game (r_randomCol d))))
         \<and> (stack_of game (r_randomCol d) = [] \<longrightarrow> \<not> undone eff \<and> board game' = board game)
         \<and> (\<forall>c. c \<noteq> r_randomCol d \<longrightarrow> board game' c = board game c)
         \<and> players game' = players game \<and> currentTurn game' = currentTurn game"
proof (cases "board game (r_randomCol d)")
  case None
  then show ?thesis
    using assms
    by (simp add: usePowerUp_def Let_def finishPowerUp_def stack_of_def no_effect_def)
next
  case (Some s)
  then show ?thesis
    using assms
    by (cases "s = []")
      (simp_all add: usePowerUp_def Let_def finishPowerUp_def stack_of_def no_effect_def)
qed

theorem undo_move_pops_witness:
  "js_nth POWER_UP_TYPES (r_powerUp (undo_draws 0)) = Some ''undo_move''
   \<and> stack_of demo_full 0 \<noteq> [] \<and> stack_of demo_full 2 = []
   \<and> (\<exists>eff game'.
         usePowerUp demo_full ''player1_aaaa'' (undo_draws 0) 7
           = (Returned (Some ''undo_move'', eff), game')
       \<and> undone eff \<and> board game' 0 = Some (butlast full_stack)
       \<and> board game' 2 = board demo_full 2)
   \<and> (\<exists>eff game'.
         usePowerUp demo_full ''player1_aaaa'' (undo_draws 2) 7
           = (Returned (Some ''undo_move'', eff), game')
       \<and> \<not> undone eff \<and> board game' = board demo_full)"
proof -
  have r: "r_randomCol (undo_draws 0) = 0" "r_randomCol (undo_draws 2) = 2"
    by (simp_all add: undo_draws_def)
  have s: "stack_of demo_full 0 \<noteq> []" "stack_of demo_full 2 = []"
    by (simp_all add: stack_of_demo_full full_stack_def)
  have a: "\<exists>eff game'.
         usePowerUp demo_full ''player1_aaaa'' (undo_draws 0) 7
           = (Returned (Some ''undo_move'', eff), game')
       \<and> undone eff \<and> board game' 0 = Some (butlast full_stack)
       \<and> board game' 2 = board demo_full 2"
    using undo_move_pops [OF kind_undo_draws [of 0], where game = demo_full
        and playerId = "''player1_aaaa''" and now = 7] s(1)
    unfolding r by (auto simp: stack_of_demo_full)
  have b: "\<exists>eff game'.
         usePowerUp demo_full ''player1_aaaa'' (undo_draws 2) 7
           = (Returned (Some ''undo_move'', eff), game')
       \<and> \<not> undone eff \<and> board game' = board demo_full"
    using undo_move_pops [OF kind_undo_draws [of 2], where game = demo_full
        and playerId = "''player1_aaaa''" and now = 7] s(2)
    unfolding r by auto
  show ?thesis using a b s kind_undo_draws [of 0] by blast
qed

subsection \<open>The double drop\<close>

text \<open>
  Claim C2, as amended. The double drop never fails and validates nothing beforehand:
  it makes its two drops one after the other. The first drop is skipped, and reported
  as \<open>null\<close>, exactly when its column holds six discs; the second likewise, on the column
  as the first drop left it. A full target column does not keep the drop into the other
  column from being applied; the board is unchanged only when both target columns are
  full. With room in both columns both discs are placed; when both draws name the same
  column the second disc lands on the first, and is skipped when the first filled the
  column. Columns that are not targets are never changed.
\<close>

theorem double_drop_sequential:
  assumes "js_nth POWER_UP_TYPES (r_powerUp d) = Some ''double_drop''"
    and "players game \<noteq> []"
    and "board game (r_col1 d) = Some s1"
    and "board game (r_col2 d) = Some s2"
    and "b1 = (if length s1 < 6 then (board game)(r_col1 d \<mapsto> s1 @ [playerId])
               else board game)"
    and "after1 = (if r_col1 d = r_col2 d \<and> length s1 < 6 then s1 @ [playerId] else s2)"
  shows "\<exists>d1 d2 game'.
           usePowerUp game playerId d now
             = (Returned (Some ''double_drop'', no_effect\<lparr>drop1 := d1, drop2 := d2\<rparr>), game')
         \<and> d1 = (if length s1 < 6 then Some \<lparr>column = r_col1 d, row = length s1\<rparr> else None)
         \<and> d2 = (if length after1 < 6 then Some \<lparr>column = r_col2 d, row = length after1\<rparr>
                  else None)
         \<and> board game' = (if length after1 < 6 then b1(r_col2 d \<mapsto> after1 @ [playerId])
                           else b1)
         \<and> (d1 = None \<longleftrightarrow> 6 \<le> length s1)
         \<and> (length s1 < 6 \<longrightarrow> d1 = Some \<lparr>column = r_col1 d, row = length s1\<rparr>)
         \<and> (r_col1 d \<noteq> r_col2 d \<longrightarrow> (d2 = None \<longleftrightarrow> 6 \<le> length s2))
         \<and> (6 \<le> length s1 \<and> 6 \<le> length s2 \<longrightarrow> board game' = board game)
         \<and> (r_col1 d \<noteq> r_col2 d \<and> length s1 < 6 \<and> 6 \<le> length s2 \<longrightarrow>
               board game' = (board game)(r_col1 d \<mapsto> s1 @ [playerId]))
         \<and> (r_col1 d \<noteq> r_col2 d \<and> 6 \<le> length s1 \<and> length s2 < 6 \<longrightarrow>
               board game' = (board game)(r_col2 d \<mapsto> s2 @ [playerId])
               \<and> d2 = Some \<lparr>column = r_col2 d, row = length s2\<rparr>)
         \<and> (r_col1 d \<noteq> r_col2 d \<and> length s1 < 6 \<and> length s2 < 6 \<longrightarrow>
               board game' = (board game)(r_col1 d \<mapsto> s1 @ [playerId],
                                          r_col2 d \<mapsto> s2 @ [playerId])
               \<and> d2 = Some \<lparr>column = r_col2 d, row = length s2\<rparr>)
         \<and> (r_col1 d = r_col2 d \<and> length s1 < 5 \<longrightarrow>
               board game' = (board game)(r_col1 d \<mapsto> s1 @ [playerId, playerId])
               \<and> d2 = Some \<lparr>column = r_col1 d, row = length s1 + 1\<rparr>)
         \<and> (r_col1 d = r_col2 d \<and> length s1 = 5 \<longrightarrow>
               board game' = (board game)(r_col1 d \<mapsto> s1 @ [playerId])
               \<and> d2 = None)
         \<and> (\<forall>c. c \<noteq> r_col1 d \<and> c \<noteq> r_col2 d \<longrightarrow> board game' c = board game c)"
proof -
  define g1 where "g1 = snd (makeMove game playerId (r_col1 d) now)"
  define g2 where "g2 = snd (makeMove g1 playerId (r_col2 d) now)"
  have so1: "stack_of game (r_col1 d) = s1" and so2: "stack_of game (r_col2 d) = s2"
    using assms(3,4) by (simp_all add: stack_of_def)
  have b1: "board g1 = b1"
    unfolding g1_def makeMove_board so1 assms(5) by simp
  have a1: "stack_of g1 (r_col2 d) = after1"
    using assms(3,4) by (auto simp: stack_of_def b1 assms(5,6))
  have b2: "board g2 = (if length after1 < 6 then b1(r_col2 d \<mapsto> after1 @ [playerId])
                        else b1)"
    unfolding g2_def makeMove_board a1 b1 by simp
  define D1 where "D1 = (if length s1 < 6
                         then Some \<lparr>column = r_col1 d, row = length s1\<rparr> else None)"
  define D2 where "D2 = (if length after1 < 6
                         then Some \<lparr>column = r_col2 d, row = length after1\<rparr> else None)"
  define G where "G = g2\<lparr>lastEventTime := now, eventCount := eventCount g2 + 1\<rparr>"
  have bG: "board G = (if length after1 < 6 then b1(r_col2 d \<mapsto> after1 @ [playerId])
                       else b1)"
    using b2 by (simp add: G_def)
  have u: "usePowerUp game playerId d now
             = (Returned (Some ''double_drop'', no_effect\<lparr>drop1 := D1, drop2 := D2\<rparr>), G)"
    using usePowerUp_double_drop [OF assms(1,2) g1_def g2_def]
    by (simp add: finishPowerUp_def D1_def D2_def G_def so1 a1)
  have same: "r_col1 d = r_col2 d \<Longrightarrow> s2 = s1" using assms(3,4) by simp
  have c1: "D1 = None \<longleftrightarrow> 6 \<le> length s1" by (auto simp: D1_def)
  have c2: "length s1 < 6 \<longrightarrow> D1 = Some \<lparr>column = r_col1 d, row = length s1\<rparr>"
    by (simp add: D1_def)
  have c3: "r_col1 d \<noteq> r_col2 d \<longrightarrow> (D2 = None \<longleftrightarrow> 6 \<le> length s2)"
    by (auto simp: D2_def assms(6))
  have c4: "6 \<le> length s1 \<and> 6 \<le> length s2 \<longrightarrow> board G = board game"
    by (simp add: bG assms(5,6))
  have c5: "r_col1 d \<noteq> r_col2 d \<and> length s1 < 6 \<and> 6 \<le> length s2 \<longrightarrow>
              board G = (board game)(r_col1 d \<mapsto> s1 @ [playerId])"
    by (simp add: bG assms(5,6))
  have c6: "r_col1 d \<noteq> r_col2 d \<and> 6 \<le> length s1 \<and> length s2 < 6 \<longrightarrow>
              board G = (board game)(r_col2 d \<mapsto> s2 @ [playerId])
              \<and> D2 = Some \<lparr>column = r_col2 d, row = length s2\<rparr>"
    by (simp add: bG D2_def assms(5,6))
  have c7: "r_col1 d \<noteq> r_col2 d \<and> length s1 < 6 \<and> length s2 < 6 \<longrightarrow>
               board G = (board game)(r_col1 d \<mapsto> s1 @ [playerId],
                                      r_col2 d \<mapsto> s2 @ [playerId])
               \<and> D2 = Some \<lparr>column = r_col2 d, row = length s2\<rparr>"
    by (simp add: bG D2_def assms(5,6))
  have c8: "r_col1 d = r_col2 d \<and> length s1 < 5 \<longrightarrow>
               board G = (board game)(r_col1 d \<mapsto> s1 @ [playerId, playerId])
               \<and> D2 = Some \<lparr>column = r_col1 d, row = length s1 + 1\<rparr>"
    by (simp add: bG D2_def assms(5,6))
  have c9: "r_col1 d = r_col2 d \<and> length s1 = 5 \<longrightarrow>
               board G = (board game)(r_col1 d \<mapsto> s1 @ [playerId]) \<and> D2 = None"
    by (simp add: bG D2_def assms(5,6))
  have c10: "\<forall>c. c \<noteq> r_col1 d \<and> c \<noteq> r_col2 d \<longrightarrow> board G c = board game c"
    by (simp add: bG assms(5))
  show ?thesis
    apply (rule exI [of _ D1], rule exI [of _ D2], rule exI [of _ G])
    apply (insert u D1_def D2_def bG c1 c2 c3 c4 c5 c6 c7 c8 c9 c10)
    apply blast
    done
qed

lemma demo_full_facts:
  "players demo_full \<noteq> []" "board demo_full 0 = Some full_stack"
  "board demo_full 2 = Some []" "length full_stack = 6"
  by (simp_all add: demo_full_def demo_room_def demo_players_def emptyBoard_def full_stack_def)

lemma demo_five_facts:
  "players demo_five \<noteq> []" "board demo_five 0 = Some five_stack"
  "board demo_five 2 = Some []" "length five_stack = 5"
  by (simp_all add: demo_five_def demo_room_def demo_players_def emptyBoard_def five_stack_def)

lemma run_five_moves: "run demo_room (butlast six_moves) = demo_five"
  by (simp add: run_def six_moves_def demo_room_def demo_five_def five_stack_def
      demo_players_def makeMove_def getNextPlayer_def emptyBoard_def Let_def fun_upd_twist)

lemma double_drop_draws_cols [simp]:
  "r_col1 (double_drop_draws c1 c2) = c1" "r_col2 (double_drop_draws c1 c2) = c2"
  by (simp_all add: double_drop_draws_def)

theorem double_drop_sequential_witness:
  "js_nth POWER_UP_TYPES (r_powerUp (double_drop_draws 2 0)) = Some ''double_drop''
   \<and> players demo_full \<noteq> [] \<and> board demo_full 2 = Some [] \<and> board demo_full 0 = Some full_stack
   \<and> length ([] :: string list) < 6 \<and> 6 \<le> length full_stack \<and> (2 :: nat) \<noteq> 0
   \<and> board demo_five 0 = Some five_stack \<and> length five_stack = 5
   \<and> (\<exists>game'.
         usePowerUp demo_full ''player1_aaaa'' (double_drop_draws 2 0) 7
           = (Returned (Some ''double_drop'',
                no_effect\<lparr>drop1 := Some \<lparr>column = 2, row = 0\<rparr>, drop2 := None\<rparr>), game')
       \<and> board game' = (board demo_full)(2 \<mapsto> [''player1_aaaa'']))
   \<and> (\<exists>game'.
         usePowerUp demo_full ''player1_aaaa'' (double_drop_draws 0 2) 7
           = (Returned (Some ''double_drop'',
                no_effect\<lparr>drop1 := None, drop2 := Some \<lparr>column = 2, row = 0\<rparr>\<rparr>), game')
       \<and> board game' = (board demo_full)(2 \<mapsto> [''player1_aaaa'']))
   \<and> (\<exists>game'.
         usePowerUp demo_full ''player1_aaaa'' (double_drop_draws 0 0) 7
           = (Returned (Some ''double_drop'', no_effect\<lparr>drop1 := None, drop2 := None\<rparr>),
              game')
       \<and> board game' = board demo_full)
   \<and> (\<exists>game'.
         usePowerUp demo_full ''player1_aaaa'' (double_drop_draws 2 2) 7
           = (Returned (Some ''double_drop'',
                no_effect\<lparr>drop1 := Some \<lparr>column = 2, row = 0\<rparr>,
                           drop2 := Some \<lparr>column = 2, row = 1\<rparr>\<rparr>), game')
       \<and> board game' = (board demo_full)(2 \<mapsto> [''player1_aaaa'', ''player1_aaaa'']))
   \<and> (\<exists>game'.
         usePowerUp demo_five ''player2_bbbb'' (double_drop_draws 0 2) 7
           = (Returned (Some ''double_drop'',
                no_effect\<lparr>drop1 := Some \<lparr>column = 0, row = 5\<rparr>,
                           drop2 := Some \<lparr>column = 2, row = 0\<rparr>\<rparr>), game')
       \<and> board game' = (board demo_five)(0 \<mapsto> five_stack @ [''player2_bbbb''],
                                           2 \<mapsto> [''player2_bbbb'']))
   \<and> (\<exists>game'.
         usePowerUp demo_five ''player2_bbbb'' (double_drop_draws 0 0) 7
           = (Returned (Some ''double_drop'',
                no_effect\<lparr>drop1 := Some \<lparr>column = 0, row = 5\<rparr>, drop2 := None\<rparr>), game')
       \<and> board game' = (board demo_five)(0 \<mapsto> five_stack @ [''player2_bbbb'']))"
proof -
  note f = demo_full_facts
  note v = demo_five_facts
  have k: "\<And>c1 c2. js_nth POWER_UP_TYPES (r_powerUp (double_drop_draws c1 c2))
                       = Some ''double_drop''"
    by (rule kind_double_drop_draws)
  have a: "\<exists>game'.
         usePowerUp demo_full ''player1_aaaa'' (double_drop_draws 2 0) 7
           = (Returned (Some ''double_drop'',
                no_effect\<lparr>drop1 := Some \<lparr>column = 2, row = 0\<rparr>, drop2 := None\<rparr>), game')
       \<and> board game' = (board demo_full)(2 \<mapsto> [''player1_aaaa''])"
    using double_drop_sequential [OF k [of 2 0] f(1) _ _ refl refl,
        where ?s1.0 = "[]" and ?s2.0 = full_stack and playerId = "''player1_aaaa''"
        and now = 7] f
    by auto
  have b: "\<exists>game'.
         usePowerUp demo_full ''player1_aaaa'' (double_drop_draws 0 2) 7
           = (Returned (Some ''double_drop'',
                no_effect\<lparr>drop1 := None, drop2 := Some \<lparr>column = 2, row = 0\<rparr>\<rparr>), game')
       \<and> board game' = (board demo_full)(2 \<mapsto> [''player1_aaaa''])"
    using double_drop_sequential [OF k [of 0 2] f(1) _ _ refl refl,
        where ?s1.0 = full_stack and ?s2.0 = "[]" and playerId = "''player1_aaaa''"
        and now = 7] f
    by auto
  have c: "\<exists>game'.
         usePowerUp demo_full ''player1_aaaa'' (double_drop_draws 0 0) 7
           = (Returned (Some ''double_drop'', no_effect\<lparr>drop1 := None, drop2 := None\<rparr>),
              game')
       \<and> board game' = board demo_full"
    using double_drop_sequential [OF k [of 0 0] f(1) _ _ refl refl,
        where ?s1.0 = full_stack and ?s2.0 = full_stack and playerId = "''player1_aaaa''"
        and now = 7] f
    by auto
  have d: "\<exists>game'.
         usePowerUp demo_full ''player1_aaaa'' (double_drop_draws 2 2) 7
           = (Returned (Some ''double_drop'',
                no_effect\<lparr>drop1 := Some \<lparr>column = 2, row = 0\<rparr>,
                           drop2 := Some \<lparr>column = 2, row = 1\<rparr>\<rparr>), game')
       \<and> board game' = (board demo_full)(2 \<mapsto> [''player1_aaaa'', ''player1_aaaa''])"
    using double_drop_sequential [OF k [of 2 2] f(1) _ _ refl refl,
        where ?s1.0 = "[]" and ?s2.0 = "[]" and playerId = "''player1_aaaa''"
        and now = 7] f
    by auto
  have e: "\<exists>game'.
         usePowerUp demo_five ''player2_bbbb'' (double_drop_draws 0 2) 7
           = (Returned (Some ''double_drop'',
                no_effect\<lparr>drop1 := Some \<lparr>column = 0, row = 5\<rparr>,
                           drop2 := Some \<lparr>column = 2, row = 0\<rparr>\<rparr>), game')
       \<and> board game' = (board demo_five)(0 \<mapsto> five_stack @ [''player2_bbbb''],
                                           2 \<mapsto> [''player2_bbbb''])"
    using double_drop_sequential [OF k [of 0 2] v(1) _ _ refl refl,
        where ?s1.0 = five_stack and ?s2.0 = "[]" and playerId = "''player2_bbbb''"
        and now = 7] v
    by auto
  have g: "\<exists>game'.
         usePowerUp demo_five ''player2_bbbb'' (double_drop_draws 0 0) 7
           = (Returned (Some ''double_drop'',
                no_effect\<lparr>drop1 := Some \<lparr>column = 0, row = 5\<rparr>, drop2 := None\<rparr>), game')
       \<and> board game' = (board demo_five)(0 \<mapsto> five_stack @ [''player2_bbbb''])"
    using double_drop_sequential [OF k [of 0 0] v(1) _ _ refl refl,
        where ?s1.0 = five_stack and ?s2.0 = five_stack and playerId = "''player2_bbbb''"
        and now = 7] v
    by auto
  show ?thesis
    using a b c d e g k [of 2 0] f v by simp
qed

text \<open>
  The claim as stated fails: with column 0 full and column 2 empty, a double drop on
  columns 2 and 0 returns a result, not an error, and has put a disc into column 2.
\<close>

theorem double_drop_counterexample:
  "stack_of demo_full 0 = full_stack \<and> length full_stack = 6
   \<and> fst (usePowerUp demo_full ''player1_aaaa'' (double_drop_draws 2 0) 7)
       = Returned (Some ''double_drop'',
           no_effect\<lparr>drop1 := Some \<lparr>column = 2, row = 0\<rparr>, drop2 := None\<rparr>)
   \<and> board demo_full 2 = Some []
   \<and> board (snd (usePowerUp demo_full ''player1_aaaa'' (double_drop_draws 2 0) 7)) 2
       = Some [''player1_aaaa'']"
proof -
  have s0: "stack_of (snd (makeMove demo_full ''player1_aaaa'' 2 7)) 0 = full_stack"
    by (simp add: stack_of_makeMove_other stack_of_demo_full)
  have b2: "board (snd (makeMove (snd (makeMove demo_full ''player1_aaaa'' 2 7))
                     ''player1_aaaa'' 0 7)) 2 = Some [''player1_aaaa'']"
    by (simp add: makeMove_board s0 stack_of_demo_full demo_full_facts)
  have u: "usePowerUp demo_full ''player1_aaaa'' (double_drop_draws 2 0) 7 =
             finishPowerUp (Some ''double_drop'') 7
               (no_effect\<lparr>drop1 := Some \<lparr>column = 2, row = 0\<rparr>, drop2 := None\<rparr>)
               (snd (makeMove (snd (makeMove demo_full ''player1_aaaa'' 2 7))
                              ''player1_aaaa'' 0 7))"
    using usePowerUp_double_drop [OF kind_double_drop_draws [of 2 0] demo_full_facts(1) refl refl,
        of "''player1_aaaa''" 7]
    by (simp add: s0 stack_of_demo_full demo_full_facts)
  show ?thesis
    unfolding u using b2
    by (simp add: finishPowerUp_def stack_of_demo_full demo_full_facts)
qed

section \<open>Sending through the socket service\<close>

lemma run_handlers_total:
  "never_throw hs \<Longrightarrow> \<exists>w'. run_handlers hs e w = Returned w'"
proof (induction hs arbitrary: w)
  case Nil
  then show ?case by simp
next
  case (Cons h hs)
  from Cons.prems have h: "h e w \<noteq> Throws" and hs: "never_throw hs"
    by (simp_all add: never_throw_def)
  from h obtain w1 where "h e w = Returned w1" by (cases "h e w") auto
  then show ?case using Cons.IH [OF hs, of w1] by simp
qed

lemma notifyErrorHandlers_total:
  "handlers_never_throw svc \<Longrightarrow> \<exists>w'. notifyErrorHandlers svc err w = Returned w'"
  by (simp add: notifyErrorHandlers_def handlers_never_throw_def run_handlers_total)

lemma handlers_never_throw_upd [simp]:
  "handlers_never_throw (svc\<lparr>isReconnecting := b\<rparr>) = handlers_never_throw svc"
  by (simp add: handlers_never_throw_def handlersFor_def)

lemma notifyHandlers_total:
  assumes "handlers_never_throw svc"
  shows "\<exists>w'. notifyHandlers svc notice w = Returned w'"
proof -
  have a: "never_throw (handlersFor svc (notice_type notice))"
    and b: "never_throw (handlersFor svc ''*'')"
    using assms by (simp_all add: handlers_never_throw_def)
  obtain w1 where w1: "run_handlers (handlersFor svc (notice_type notice)) notice w = Returned w1"
    using run_handlers_total [OF a] by blast
  obtain w2 where "run_handlers (handlersFor svc ''*'') notice w1 = Returned w2"
    using run_handlers_total [OF b] by blast
  then show ?thesis using w1 by (simp add: notifyHandlers_def)
qed

lemma attemptReconnect_total:
  assumes "handlers_never_throw svc"
  shows "\<exists>svc' w'. attemptReconnect svc w = Returned (svc', w')"
proof -
  have n1: "\<And>notice v. \<exists>w'. notifyHandlers (svc\<lparr>isReconnecting := True\<rparr>) notice v = Returned w'"
    using assms by (simp add: notifyHandlers_total)
  have n2: "\<And>notice v. \<exists>w'. notifyHandlers svc notice v = Returned w'"
    using assms by (simp add: notifyHandlers_total)
  have n3: "\<And>err v. \<exists>w'. notifyErrorHandlers svc err v = Returned w'"
    using assms by (simp add: notifyErrorHandlers_total)
  show ?thesis
  proof (cases "isReconnecting svc")
    case True
    then show ?thesis by (simp add: attemptReconnect_def)
  next
    case nr: False
    show ?thesis
    proof (cases "autoReconnect svc \<and> reconnectAttempts svc < maxReconnectAttempts svc")
      case True
      obtain w1 where "notifyHandlers (svc\<lparr>isReconnecting := True\<rparr>)
                (ReconnectingNotice (reconnectAttempts svc + 1) (maxReconnectAttempts svc)
                   (reconnectInterval svc)) w = Returned w1"
        using n1 by blast
      then show ?thesis using nr True by (simp add: attemptReconnect_def Let_def)
    next
      case na: False
      show ?thesis
      proof (cases "reconnectAttempts svc \<ge> maxReconnectAttempts svc")
        case True
        obtain w1 where w1: "notifyErrorHandlers svc
                (WebSocketConnectionError ''Maximum reconnection attempts reached'') w
              = Returned w1"
          using n3 by blast
        obtain w2 where "notifyHandlers svc
                  (ReconnectFailedNotice (reconnectAttempts svc) (maxReconnectAttempts svc))
                  w1 = Returned w2"
          using n2 by blast
        then show ?thesis using nr na True w1 by (auto simp: attemptReconnect_def)
      next
        case False
        then show ?thesis using nr na by (auto simp: attemptReconnect_def)
      qed
    qed
  qed
qed

lemma sendCaught_total:
  assumes "handlers_never_throw svc"
  shows "\<exists>w1. sendCaught svc (Rendered s) w = Returned (False, svc, w1)
              \<and> notifyErrorHandlers svc
                   (WebSocketMessageError (''Failed to send message: '' @ s)) w
                 = Returned w1"
proof -
  obtain w1 where "notifyErrorHandlers svc
      (WebSocketMessageError (''Failed to send message: '' @ s)) w = Returned w1"
    using notifyErrorHandlers_total [OF assms] by blast
  then show ?thesis by (simp add: sendCaught_def)
qed

lemma sendNotConnected_total:
  assumes "handlers_never_throw svc"
  shows "\<exists>svc' w1 w'. sendNotConnected svc w = Returned (False, svc', w')
              \<and> notifyErrorHandlers svc
                   (WebSocketConnectionError
                      ''Cannot send message - WebSocket is not connected'') w
                 = Returned w1
              \<and> ((svc', w') = (svc, w1) \<or> attemptReconnect svc w1 = Returned (svc', w'))"
proof -
  obtain w1 where w1: "notifyErrorHandlers svc
      (WebSocketConnectionError ''Cannot send message - WebSocket is not connected'') w
        = Returned w1"
    using notifyErrorHandlers_total [OF assms] by blast
  obtain svc' w2 where "attemptReconnect svc w1 = Returned (svc', w2)"
    using attemptReconnect_total [OF assms] by blast
  then show ?thesis using w1 by (auto simp: sendNotConnected_def)
qed

lemma send_branches:
  "send env svc message w =
     (if \<not> isConnected svc then sendNotConnected svc w
      else case thrown_in_try env message of
             Some error \<Rightarrow> sendCaught svc error w
           | None \<Rightarrow>
               (case JSON_stringify env message of
                  Inl _ \<Rightarrow> Throws
                | Inr payload \<Rightarrow>
                    Returned (True,
                      svc\<lparr>socket := map_option (\<lambda>sock. sock\<lparr>sent := sent sock @ [payload]\<rparr>)
                                      (socket svc)\<rparr>, w)))"
  by (simp add: send_def isConnected_def thrown_in_try_def split: option.splits sum.splits)

lemma handed_over_iff:
  "handed_over env svc message \<longleftrightarrow> isConnected svc \<and> thrown_in_try env message = None"
  by (simp add: handed_over_def thrown_in_try_def split: sum.splits)

text \<open>
  Claim C10, as amended. When no registered handler throws, and the value that
  \<open>JSON.stringify\<close> or the socket throws, if any, can be rendered as a string, \<open>send\<close>
  does not throw for any message. It returns \<open>true\<close> exactly when there is a socket, the
  socket is open, the message was serialised and the socket took the text; the text is
  then the last frame handed to the socket, and no handler has run. In every other case
  it returns \<open>false\<close> after the registered error handlers were run on one error: the
  not-connected error when there is no open socket (a reconnection may then be
  started), the send-failure error with the rendered value otherwise.
\<close>

theorem send_total:
  assumes "handlers_never_throw svc"
    and "isConnected svc \<longrightarrow> thrown_in_try env message \<noteq> Some Unrenderable"
  shows "\<exists>b svc' w'.
           send env svc message w = Returned (b, svc', w')
         \<and> (b \<longleftrightarrow> handed_over env svc message)
         \<and> (b \<longrightarrow> w' = w \<and>
               (\<exists>sock payload. socket svc = Some sock \<and> readyState sock = OPEN
                  \<and> JSON_stringify env message = Inr payload
                  \<and> socket svc' = Some (sock\<lparr>sent := sent sock @ [payload]\<rparr>)))
         \<and> (\<not> b \<and> \<not> isConnected svc \<longrightarrow>
               (\<exists>w1. notifyErrorHandlers svc
                        (WebSocketConnectionError
                           ''Cannot send message - WebSocket is not connected'') w
                      = Returned w1
                    \<and> ((svc', w') = (svc, w1)
                        \<or> attemptReconnect svc w1 = Returned (svc', w'))))
         \<and> (\<not> b \<and> isConnected svc \<longrightarrow>
               (\<exists>s w1. thrown_in_try env message = Some (Rendered s)
                    \<and> notifyErrorHandlers svc
                        (WebSocketMessageError (''Failed to send message: '' @ s)) w
                      = Returned w1
                    \<and> svc' = svc \<and> w' = w1))"
proof (cases "isConnected svc")
  case False
  then have h: "\<not> handed_over env svc message" by (simp add: handed_over_iff)
  have s: "send env svc message w = sendNotConnected svc w"
    using False by (simp add: send_branches)
  show ?thesis
    unfolding s using sendNotConnected_total [OF assms(1), of w] False h by auto
next
  case True
  then obtain sock where sock: "socket svc = Some sock" "readyState sock = OPEN"
    by (auto simp: isConnected_def split: option.splits)
  show ?thesis
  proof (cases "thrown_in_try env message")
    case None
    then have ho: "handed_over env svc message" using True by (simp add: handed_over_iff)
    from None obtain payload where "JSON_stringify env message = Inr payload"
      by (auto simp: thrown_in_try_def split: sum.splits)
    then show ?thesis using True None ho sock by (auto simp: send_branches)
  next
    case (Some error)
    then have nho: "\<not> handed_over env svc message" by (simp add: handed_over_iff)
    from Some assms(2) True obtain s where e: "error = Rendered s"
      by (cases error) auto
    have s: "send env svc message w = sendCaught svc (Rendered s) w"
      using True Some e by (simp add: send_branches)
    show ?thesis
      unfolding s using sendCaught_total [OF assms(1), of s w] True nho Some e by auto
  qed
qed

lemma new_service_never_throw:
  "handlers_never_throw (new_service [hook_error_handler r])"
  by (simp add: handlers_never_throw_def never_throw_def new_service_def handlersFor_def
      hook_error_handler_def)

lemma open_service_never_throw:
  "handlers_never_throw (open_service [hook_error_handler r])"
  by (simp add: handlers_never_throw_def never_throw_def new_service_def open_service_def
      handlersFor_def hook_error_handler_def)

lemma browser_env_no_throw: "thrown_in_try browser_env m = None"
  by (simp add: thrown_in_try_def browser_env_def)

lemma failing_env_throws: "thrown_in_try failing_env m = Some (Rendered ''NetworkError'')"
  by (simp add: thrown_in_try_def failing_env_def browser_env_def)

lemma open_service_connected: "isConnected (open_service hs)"
  by (simp add: isConnected_def open_service_def)

theorem send_total_witness:
  "handlers_never_throw (new_service [hook_error_handler True])
   \<and> handlers_never_throw (open_service [hook_error_handler True])
   \<and> \<not> isConnected (new_service [hook_error_handler True])
   \<and> isConnected (open_service [hook_error_handler True])
   \<and> thrown_in_try browser_env (MoveMessage 3) \<noteq> Some Unrenderable
   \<and> thrown_in_try failing_env (MoveMessage 3) \<noteq> Some Unrenderable
   \<and> handed_over browser_env (open_service [hook_error_handler True]) (MoveMessage 3)
   \<and> (\<exists>svc' w'. send browser_env (new_service [hook_error_handler True]) (MoveMessage 3)
                    client_state = Returned (False, svc', w'))
   \<and> (\<exists>svc'. send browser_env (open_service [hook_error_handler True]) (MoveMessage 3)
                 client_state = Returned (True, svc', client_state))
   \<and> (\<exists>w'. send failing_env (open_service [hook_error_handler True]) (MoveMessage 3)
                client_state
              = Returned (False, open_service [hook_error_handler True], w'))"
proof -
  have nc: "\<not> isConnected (new_service [hook_error_handler True])"
    by (simp add: isConnected_def new_service_def)
  then have nh: "\<not> handed_over browser_env (new_service [hook_error_handler True])
                     (MoveMessage 3)"
    by (simp add: handed_over_iff)
  have oc: "isConnected (open_service [hook_error_handler True])"
    by (rule open_service_connected)
  have ho: "handed_over browser_env (open_service [hook_error_handler True]) (MoveMessage 3)"
    by (simp add: handed_over_iff oc browser_env_no_throw)
  have nf: "\<not> handed_over failing_env (open_service [hook_error_handler True])
                (MoveMessage 3)"
    by (simp add: handed_over_iff failing_env_throws)
  have t1: "thrown_in_try browser_env (MoveMessage 3) \<noteq> Some Unrenderable"
    by (simp add: browser_env_no_throw)
  have t2: "thrown_in_try failing_env (MoveMessage 3) \<noteq> Some Unrenderable"
    by (simp add: failing_env_throws)
  have i1: "isConnected (new_service [hook_error_handler True])
              \<longrightarrow> thrown_in_try browser_env (MoveMessage 3) \<noteq> Some Unrenderable"
    using t1 by simp
  have i2: "isConnected (open_service [hook_error_handler True])
              \<longrightarrow> thrown_in_try browser_env (MoveMessage 3) \<noteq> Some Unrenderable"
    using t1 by simp
  have i3: "isConnected (open_service [hook_error_handler True])
              \<longrightarrow> thrown_in_try failing_env (MoveMessage 3) \<noteq> Some Unrenderable"
    using t2 by simp
  obtain b1 s1 w1 where
    a1: "send browser_env (new_service [hook_error_handler True]) (MoveMessage 3)
           client_state = Returned (b1, s1, w1)"
    and a2: "b1 \<longleftrightarrow> handed_over browser_env (new_service [hook_error_handler True])
                      (MoveMessage 3)"
    using send_total [OF new_service_never_throw [of True] i1, where w = client_state]
    by (elim exE conjE)
  have a: "\<exists>svc' w'. send browser_env (new_service [hook_error_handler True])
                         (MoveMessage 3) client_state = Returned (False, svc', w')"
    using a1 a2 nh by auto
  obtain b2 s2 w2 where
    b1: "send browser_env (open_service [hook_error_handler True]) (MoveMessage 3)
           client_state = Returned (b2, s2, w2)"
    and b2: "b2 \<longleftrightarrow> handed_over browser_env (open_service [hook_error_handler True])
                      (MoveMessage 3)"
    and b3: "b2 \<longrightarrow> w2 = client_state"
    using send_total [OF open_service_never_throw [of True] i2, where w = client_state]
    by (elim exE conjE) blast
  have b: "\<exists>svc'. send browser_env (open_service [hook_error_handler True])
                      (MoveMessage 3) client_state = Returned (True, svc', client_state)"
    using b1 b2 b3 ho by auto
  obtain b3 s3 w3 where
    c1: "send failing_env (open_service [hook_error_handler True]) (MoveMessage 3)
           client_state = Returned (b3, s3, w3)"
    and c2: "b3 \<longleftrightarrow> handed_over failing_env (open_service [hook_error_handler True])
                      (MoveMessage 3)"
    and c3: "\<not> b3 \<and> isConnected (open_service [hook_error_handler True])
               \<longrightarrow> s3 = open_service [hook_error_handler True]"
    using send_total [OF open_service_never_throw [of True] i3, where w = client_state]
    by (elim exE conjE) blast
  have c: "\<exists>w'. send failing_env (open_service [hook_error_handler True]) (MoveMessage 3)
                   client_state
                 = Returned (False, open_service [hook_error_handler True], w')"
    using c1 c2 c3 nf oc by auto
  show ?thesis
    using a b c nc oc ho t1 t2 new_service_never_throw open_service_never_throw by blast
qed

text \<open>
  The claim as stated fails in two ways. With an error handler registered that throws,
  and no socket, \<open>send\<close> throws. With an open socket and no handler at all, \<open>send\<close>
  throws for a message whose serialisation throws a Symbol: the \<open>catch\<close> block cannot
  render it.
\<close>

theorem send_counterexample:
  "send browser_env (new_service [throwing_handler]) (MoveMessage 3) client_state = Throws
   \<and> send any_env (open_service []) SymbolThrower client_state = Throws"
  by (simp add: send_def sendNotConnected_def sendCaught_def notifyErrorHandlers_def
      new_service_def open_service_def throwing_handler_def any_env_def)

section \<open>Rejected commands of the client\<close>

lemma noUsesLeft_own:
  "gs_powerUps gameState powerUpId = Some e
     \<Longrightarrow> noUsesLeft gameState powerUpId \<longleftrightarrow> entry_uses e \<le> 0"
  by (simp add: noUsesLeft_def lookupPowerUp_def)

text \<open>
  An id that the inventory only inherits passes the test of the remaining uses: the
  request goes on to the test of the turn.
\<close>

lemma noUsesLeft_inherited:
  "gs_powerUps gameState powerUpId = None \<Longrightarrow> gs_powerUpsProto gameState = None
     \<Longrightarrow> powerUpId \<in> set Object_prototype_keys \<Longrightarrow> \<not> noUsesLeft gameState powerUpId"
  by (simp add: noUsesLeft_def lookupPowerUp_def)

text \<open>
  Claim C6. A move requested while it is not the player's turn, and a power-up
  requested while its remaining uses are zero or less, or while it is not the player's
  turn, are rejected at once with \<open>false\<close>: nothing is sent, the socket service is
  untouched, and the game state is the old one with only the error message set. The
  same holds for a power-up that the inventory neither holds nor inherits.
\<close>

theorem validation_failures_atomic:
  "(\<not> gs_isMyTurn gameState \<longrightarrow>
      makeMove_hook env gameState svc col
        = Returned (False, svc,
            gameState\<lparr>gs_error := Some (''It'' @ [CHR 0x27] @ ''s not your turn yet!'')\<rparr>))
   \<and> (gs_powerUps gameState powerUpId = Some e \<and> entry_uses e \<le> 0 \<longrightarrow>
      usePowerUp_hook env gameState svc powerUpId targetData
        = Returned (False, svc,
            gameState\<lparr>gs_error := Some
              (''You don'' @ [CHR 0x27] @ ''t have any uses left for this power-up!'')\<rparr>))
   \<and> (lookupPowerUp gameState powerUpId = Undefined \<longrightarrow>
      usePowerUp_hook env gameState svc powerUpId targetData
        = Returned (False, svc,
            gameState\<lparr>gs_error := Some
              (''You don'' @ [CHR 0x27] @ ''t have any uses left for this power-up!'')\<rparr>))
   \<and> (gs_powerUps gameState powerUpId = Some e \<and> 0 < entry_uses e
       \<and> \<not> gs_isMyTurn gameState \<longrightarrow>
      usePowerUp_hook env gameState svc powerUpId targetData
        = Returned (False, svc,
            gameState\<lparr>gs_error := Some ''You can only use power-ups during your turn!''\<rparr>))
   \<and> (\<not> noUsesLeft gameState powerUpId \<and> \<not> gs_isMyTurn gameState \<longrightarrow>
      usePowerUp_hook env gameState svc powerUpId targetData
        = Returned (False, svc,
            gameState\<lparr>gs_error := Some ''You can only use power-ups during your turn!''\<rparr>))"
  by (simp add: makeMove_hook_def usePowerUp_hook_def noUsesLeft_def lookupPowerUp_def)

theorem validation_failures_atomic_witness:
  "\<not> gs_isMyTurn waiting_state
   \<and> gs_powerUps spent_state ''column_bomb'' = Some (Listed spent_bomb)
   \<and> entry_uses (Listed spent_bomb) \<le> 0
   \<and> lookupPowerUp client_state ''time_stop'' = Undefined
   \<and> gs_powerUps waiting_state ''column_bomb'' = Some (Listed (spent_bomb\<lparr>remainingUses := 1\<rparr>))
   \<and> \<not> noUsesLeft waiting_state ''constructor''
   \<and> makeMove_hook browser_env waiting_state (open_service [hook_error_handler False]) 3
        = Returned (False, open_service [hook_error_handler False],
            waiting_state\<lparr>gs_error := Some (''It'' @ [CHR 0x27] @ ''s not your turn yet!'')\<rparr>)
   \<and> usePowerUp_hook browser_env spent_state (open_service [hook_error_handler False])
        ''column_bomb'' [(''column'', 3)]
        = Returned (False, open_service [hook_error_handler False],
            spent_state\<lparr>gs_error := Some
              (''You don'' @ [CHR 0x27] @ ''t have any uses left for this power-up!'')\<rparr>)
   \<and> usePowerUp_hook browser_env client_state (open_service [hook_error_handler False])
        ''time_stop'' []
        = Returned (False, open_service [hook_error_handler False],
            client_state\<lparr>gs_error := Some
              (''You don'' @ [CHR 0x27] @ ''t have any uses left for this power-up!'')\<rparr>)
   \<and> usePowerUp_hook browser_env waiting_state (open_service [hook_error_handler False])
        ''column_bomb'' [(''column'', 3)]
        = Returned (False, open_service [hook_error_handler False],
            waiting_state\<lparr>gs_error := Some ''You can only use power-ups during your turn!''\<rparr>)
   \<and> usePowerUp_hook browser_env waiting_state (open_service [hook_error_handler False])
        ''constructor'' []
        = Returned (False, open_service [hook_error_handler False],
            waiting_state\<lparr>gs_error := Some ''You can only use power-ups during your turn!''\<rparr>)"
proof -
  have a: "\<not> gs_isMyTurn waiting_state" by (simp add: waiting_state_def)
  have b: "gs_powerUps spent_state ''column_bomb'' = Some (Listed spent_bomb)"
    by (simp add: spent_state_def)
  have c: "entry_uses (Listed spent_bomb) \<le> 0" by (simp add: spent_bomb_def)
  have d: "lookupPowerUp client_state ''time_stop'' = Undefined"
    by (simp add: lookupPowerUp_def client_state_def defaultPowerUps_def
        Object_prototype_keys_def)
  have e: "gs_powerUps waiting_state ''column_bomb''
             = Some (Listed (spent_bomb\<lparr>remainingUses := 1\<rparr>))"
    by (simp add: waiting_state_def client_state_def defaultPowerUps_def spent_bomb_def)
  have e': "0 < entry_uses (Listed (spent_bomb\<lparr>remainingUses := 1\<rparr>))" by simp
  have f: "\<not> noUsesLeft waiting_state ''constructor''"
    by (rule noUsesLeft_inherited)
      (simp_all add: waiting_state_def client_state_def defaultPowerUps_def
        Object_prototype_keys_def)
  note svc = validation_failures_atomic [where env = browser_env
      and svc = "open_service [hook_error_handler False]"]
  have r1: "makeMove_hook browser_env waiting_state (open_service [hook_error_handler False]) 3
        = Returned (False, open_service [hook_error_handler False],
            waiting_state\<lparr>gs_error := Some (''It'' @ [CHR 0x27] @ ''s not your turn yet!'')\<rparr>)"
    using svc [where gameState = waiting_state and col = 3] a by blast
  have r2: "usePowerUp_hook browser_env spent_state (open_service [hook_error_handler False])
        ''column_bomb'' [(''column'', 3)]
        = Returned (False, open_service [hook_error_handler False],
            spent_state\<lparr>gs_error := Some
              (''You don'' @ [CHR 0x27] @ ''t have any uses left for this power-up!'')\<rparr>)"
    using svc [where gameState = spent_state and powerUpId = "''column_bomb''"
        and e = "Listed spent_bomb" and targetData = "[(''column'', 3)]"] b c by blast
  have r3: "usePowerUp_hook browser_env client_state (open_service [hook_error_handler False])
        ''time_stop'' []
        = Returned (False, open_service [hook_error_handler False],
            client_state\<lparr>gs_error := Some
              (''You don'' @ [CHR 0x27] @ ''t have any uses left for this power-up!'')\<rparr>)"
    using svc [where gameState = client_state and powerUpId = "''time_stop''"
        and targetData = "[]"] d by blast
  have r4: "usePowerUp_hook browser_env waiting_state (open_service [hook_error_handler False])
        ''column_bomb'' [(''column'', 3)]
        = Returned (False, open_service [hook_error_handler False],
            waiting_state\<lparr>gs_error := Some ''You can only use power-ups during your turn!''\<rparr>)"
    using svc [where gameState = waiting_state and powerUpId = "''column_bomb''"
        and e = "Listed (spent_bomb\<lparr>remainingUses := 1\<rparr>)"
        and targetData = "[(''column'', 3)]"] a e e' by blast
  have r5: "usePowerUp_hook browser_env waiting_state (open_service [hook_error_handler False])
        ''constructor'' []
        = Returned (False, open_service [hook_error_handler False],
            waiting_state\<lparr>gs_error := Some ''You can only use power-ups during your turn!''\<rparr>)"
    using svc [where gameState = waiting_state and powerUpId = "''constructor''"
        and targetData = "[]"] a f by blast
  show ?thesis using a b c d e f r1 r2 r3 r4 r5 by blast
qed

section \<open>The turn timeout on the client\<close>

text \<open>
  Claim C7, as amended. The \<open>turn_timeout\<close> handler makes no check of who holds the
  turn: for every message and every state it sets \<open>isMyTurn\<close> to whether the message's
  next player is the client's own player, restarts the turn clock and sets the timeout
  notice. The room with its \<open>current_turn\<close>, the board, the inventory, the events, the
  win state and the chat are left as they were, and the result does not depend on the
  room.
\<close>

theorem turn_timeout_unconditional:
  "gs_isMyTurn (turn_timeout playerId now message state) = (tt_next_turn message = playerId)
   \<and> gs_turnStartTime (turn_timeout playerId now message state) = now
   \<and> gs_remainingTime (turn_timeout playerId now message state)
       = js_or (tt_remaining_time message) (gs_turnTimeLimit state)
   \<and> gs_error (turn_timeout playerId now message state) \<noteq> None
   \<and> gs_room (turn_timeout playerId now message state) = gs_room state
   \<and> gs_board (turn_timeout playerId now message state) = gs_board state
   \<and> gs_powerUps (turn_timeout playerId now message state) = gs_powerUps state
   \<and> gs_powerUpsProto (turn_timeout playerId now message state) = gs_powerUpsProto state
   \<and> gs_activeEvents (turn_timeout playerId now message state) = gs_activeEvents state
   \<and> gs_winState (turn_timeout playerId now message state) = gs_winState state
   \<and> gs_messages (turn_timeout playerId now message state) = gs_messages state
   \<and> gs_turnTimeLimit (turn_timeout playerId now message state) = gs_turnTimeLimit state
   \<and> turn_timeout playerId now message (state\<lparr>gs_room := r\<rparr>)
       = (turn_timeout playerId now message state)\<lparr>gs_room := r\<rparr>"
  by (simp add: turn_timeout_def)

text \<open>
  The claim as stated fails. The second player holds the turn, so a timeout scheduled
  for the first player is stale; the handler still restarts the second player's clock
  and sets the notice, and takes the turn away when the message names another next
  player.
\<close>

theorem turn_timeout_counterexample:
  "gs_room client_state = Some client_room \<and> current_turn client_room = Some ''player2_bbbb''
   \<and> tt_player_id (stale_timeout ''player2_bbbb'') = ''player1_aaaa''
   \<and> gs_turnStartTime client_state = 100
   \<and> gs_turnStartTime
        (turn_timeout ''player2_bbbb'' 125 (stale_timeout ''player2_bbbb'') client_state) = 125
   \<and> gs_remainingTime client_state = 5
   \<and> gs_remainingTime
        (turn_timeout ''player2_bbbb'' 125 (stale_timeout ''player2_bbbb'') client_state) = 30
   \<and> gs_error client_state = None
   \<and> gs_error
        (turn_timeout ''player2_bbbb'' 125 (stale_timeout ''player2_bbbb'') client_state)
       = Some (''Opponent'' @ [CHR 0x27] @ ''s turn timed out!'')
   \<and> gs_isMyTurn client_state
   \<and> \<not> gs_isMyTurn
        (turn_timeout ''player2_bbbb'' 125 (stale_timeout ''player1_aaaa'') client_state)"
  by (simp add: turn_timeout_def stale_timeout_def client_state_def client_room_def js_or_def)

section \<open>Power-ups, the turn and the inventory\<close>

lemma usePowerUp_other_kinds:
  assumes "js_nth POWER_UP_TYPES (r_powerUp d) \<noteq> Some ''double_drop''"
  shows "\<exists>res game'. usePowerUp game playerId d now = (Returned res, game')
           \<and> currentTurn game' = currentTurn game \<and> players game' = players game"
  using assms
  by (simp add: usePowerUp_def Let_def finishPowerUp_def split: option.splits)

lemma powerUpDone_fields [simp]:
  "gs_isMyTurn (powerUpDone playerId t message state b) = gs_isMyTurn state"
  "gs_room (powerUpDone playerId t message state b) = gs_room state"
  "gs_powerUps (powerUpDone playerId t message state b)
     = fst (updatedPowerUps playerId message state)"
  "gs_powerUpsProto (powerUpDone playerId t message state b)
     = snd (updatedPowerUps playerId message state)"
  by (simp_all add: powerUpDone_def)

lemma power_up_used_fields:
  assumes "power_up_used playerId t message state = Returned state'"
  shows "gs_isMyTurn state' = gs_isMyTurn state \<and> gs_room state' = gs_room state
         \<and> gs_powerUps state' = fst (updatedPowerUps playerId message state)
         \<and> gs_powerUpsProto state' = snd (updatedPowerUps playerId message state)"
proof -
  have "\<exists>b g. state' = powerUpDone playerId t message state b
             \<or> state' = (powerUpDone playerId t message state b)\<lparr>gs_isGravityFlipped := g\<rparr>"
    using assms unfolding power_up_used_def Let_def
    by (auto split: option.splits if_splits prod.splits)
  then show ?thesis by auto
qed

text \<open>
  Claim C4, as amended. The simulation keeps no inventory, and a power-up other than
  the double drop does not advance the turn: \<open>usePowerUp\<close> returns with the same current
  turn and the same seated players. On the client, the \<open>power_up_used\<close> handler never
  changes \<open>isMyTurn\<close> or the room. When the message is about the client's own player it
  sets the remaining uses of the power-up to the number that the message carries if the
  inventory holds the power-up; if the inventory only inherits the id, it adds an entry
  that holds nothing but that number, and for the id \<open>__proto__\<close> makes that entry the
  prototype of the inventory. In every other case the entries of the inventory stay as
  they were.
\<close>

theorem power_up_keeps_turn:
  "(js_nth POWER_UP_TYPES (r_powerUp d) \<noteq> Some ''double_drop'' \<longrightarrow>
      (\<exists>res game'. usePowerUp game playerId d now = (Returned res, game')
         \<and> currentTurn game' = currentTurn game \<and> players game' = players game))
   \<and> (power_up_used clientId t message state = Returned state' \<longrightarrow>
        gs_isMyTurn state' = gs_isMyTurn state \<and> gs_room state' = gs_room state
        \<and> (pm_player_id message = clientId
             \<and> gs_powerUps state (pm_power_up_id message) = Some e \<longrightarrow>
           gs_powerUps state' =
             (gs_powerUps state)
               (pm_power_up_id message \<mapsto> set_uses (pm_remaining_uses message) e)
           \<and> gs_powerUpsProto state' = None)
        \<and> (pm_player_id message = clientId
             \<and> gs_powerUps state (pm_power_up_id message) = None
             \<and> pm_power_up_id message \<in> set Object_prototype_keys
             \<and> pm_power_up_id message \<noteq> ''__proto__'' \<longrightarrow>
           gs_powerUps state' =
             (gs_powerUps state)(pm_power_up_id message \<mapsto> Bare (pm_remaining_uses message))
           \<and> gs_powerUpsProto state' = None)
        \<and> (pm_player_id message = clientId
             \<and> gs_powerUps state (pm_power_up_id message) = None
             \<and> pm_power_up_id message = ''__proto__'' \<longrightarrow>
           gs_powerUps state' = gs_powerUps state
           \<and> gs_powerUpsProto state' = Some (pm_remaining_uses message))
        \<and> (pm_player_id message \<noteq> clientId
             \<or> (gs_powerUps state (pm_power_up_id message) = None
                 \<and> pm_power_up_id message \<notin> set Object_prototype_keys) \<longrightarrow>
           gs_powerUps state' = gs_powerUps state \<and> gs_powerUpsProto state' = None))"
proof -
  have "power_up_used clientId t message state = Returned state' \<longrightarrow>
        gs_isMyTurn state' = gs_isMyTurn state \<and> gs_room state' = gs_room state
        \<and> gs_powerUps state' = fst (updatedPowerUps clientId message state)
        \<and> gs_powerUpsProto state' = snd (updatedPowerUps clientId message state)"
    using power_up_used_fields by blast
  moreover have "''__proto__'' \<in> set Object_prototype_keys"
    by (simp add: Object_prototype_keys_def)
  ultimately show ?thesis
    using usePowerUp_other_kinds [of d game playerId now]
    by (auto simp: updatedPowerUps_def Let_def split: option.splits)
qed

lemma message_handled:
  "pm_effect message = None
     \<Longrightarrow> \<exists>state'. power_up_used clientId t message state = Returned state'"
  by (simp add: power_up_used_def Let_def no_effect_def)

lemma bomb_message_handled:
  "\<exists>state'. power_up_used clientId t bomb_message state = Returned state'"
  by (cases "gs_board state (string_of_nat 3)")
     (simp_all add: power_up_used_def Let_def bomb_message_def no_effect_def ensureColumn_def)

theorem power_up_keeps_turn_witness:
  "js_nth POWER_UP_TYPES (r_powerUp (bomb_draws 3)) \<noteq> Some ''double_drop''
   \<and> (\<exists>res game'. usePowerUp demo_room ''player1_aaaa'' (bomb_draws 3) 1 = (Returned res, game')
         \<and> currentTurn game' = ''player1_aaaa'')
   \<and> (\<exists>state'. power_up_used ''player2_bbbb'' 1000 bomb_message client_state = Returned state'
         \<and> gs_isMyTurn state'
         \<and> gs_powerUps state' ''column_bomb'' = Some (Listed spent_bomb))
   \<and> (\<exists>state'. power_up_used ''player2_bbbb'' 1000 (inherited_message ''constructor'')
                   client_state = Returned state'
         \<and> gs_powerUps state' = defaultPowerUps(''constructor'' \<mapsto> Bare 7))
   \<and> (\<exists>state'. power_up_used ''player2_bbbb'' 1000 (inherited_message ''__proto__'')
                   client_state = Returned state'
         \<and> gs_powerUps state' = defaultPowerUps \<and> gs_powerUpsProto state' = Some 7)
   \<and> (\<exists>state'. power_up_used ''player1_aaaa'' 1000 bomb_message client_state = Returned state'
         \<and> gs_powerUps state' = defaultPowerUps)"
proof -
  have k: "js_nth POWER_UP_TYPES (r_powerUp (bomb_draws 3)) \<noteq> Some ''double_drop''"
    by (simp add: kind_bomb_draws)
  have t: "currentTurn demo_room = ''player1_aaaa''" by (simp add: demo_room_def)
  have m: "gs_isMyTurn client_state" by (simp add: client_state_def)
  have inv: "gs_powerUps client_state = defaultPowerUps" by (simp add: client_state_def)
  have pe: "\<And>k. pm_effect (inherited_message k) = None"
    by (simp add: inherited_message_def)
  have a: "\<exists>res game'. usePowerUp demo_room ''player1_aaaa'' (bomb_draws 3) 1
             = (Returned res, game') \<and> currentTurn game' = ''player1_aaaa''"
  proof -
    have "\<exists>res game'. usePowerUp demo_room ''player1_aaaa'' (bomb_draws 3) 1
             = (Returned res, game') \<and> currentTurn game' = currentTurn demo_room
               \<and> players game' = players demo_room"
      using power_up_keeps_turn [where d = "bomb_draws 3" and game = demo_room
          and playerId = "''player1_aaaa''" and now = 1, THEN conjunct1] k
      by (rule mp)
    then show ?thesis unfolding t by blast
  qed
  have b: "\<exists>state'. power_up_used ''player2_bbbb'' 1000 bomb_message client_state
                   = Returned state'
         \<and> gs_isMyTurn state'
         \<and> gs_powerUps state' ''column_bomb'' = Some (Listed spent_bomb)"
  proof -
    obtain state' where
      s: "power_up_used ''player2_bbbb'' 1000 bomb_message client_state = Returned state'"
      using bomb_message_handled by blast
    have p: "pm_player_id bomb_message = ''player2_bbbb''
             \<and> gs_powerUps client_state (pm_power_up_id bomb_message)
                 = Some (Listed (spent_bomb\<lparr>remainingUses := 1\<rparr>))"
      by (simp add: client_state_def bomb_message_def defaultPowerUps_def spent_bomb_def)
    have q: "pm_power_up_id bomb_message = ''column_bomb''
             \<and> set_uses (pm_remaining_uses bomb_message)
                  (Listed (spent_bomb\<lparr>remainingUses := 1\<rparr>)) = Listed spent_bomb"
      by (simp add: bomb_message_def spent_bomb_def)
    have "gs_isMyTurn state' \<and> gs_powerUps state' ''column_bomb'' = Some (Listed spent_bomb)"
      using power_up_keeps_turn [where clientId = "''player2_bbbb''" and t = 1000
          and message = bomb_message and state = client_state and state' = state'
          and e = "Listed (spent_bomb\<lparr>remainingUses := 1\<rparr>)"] s m p q
      by simp
    then show ?thesis using s by blast
  qed
  have c: "\<exists>state'. power_up_used ''player2_bbbb'' 1000 (inherited_message ''constructor'')
                   client_state = Returned state'
         \<and> gs_powerUps state' = defaultPowerUps(''constructor'' \<mapsto> Bare 7)"
  proof -
    obtain state' where
      s: "power_up_used ''player2_bbbb'' 1000 (inherited_message ''constructor'')
            client_state = Returned state'"
      using message_handled [OF pe] by blast
    have p: "pm_player_id (inherited_message ''constructor'') = ''player2_bbbb''"
      "pm_power_up_id (inherited_message ''constructor'') = ''constructor''"
      "pm_remaining_uses (inherited_message ''constructor'') = 7"
      "defaultPowerUps ''constructor'' = None"
      "''constructor'' \<in> set Object_prototype_keys"
      by (simp_all add: inherited_message_def defaultPowerUps_def Object_prototype_keys_def)
    have "gs_powerUps state' = defaultPowerUps(''constructor'' \<mapsto> Bare 7)"
      using power_up_keeps_turn [where clientId = "''player2_bbbb''" and t = 1000
          and message = "inherited_message ''constructor''" and state = client_state
          and state' = state', THEN conjunct2] s
      by (simp add: inv p)
    then show ?thesis using s by blast
  qed
  have d: "\<exists>state'. power_up_used ''player2_bbbb'' 1000 (inherited_message ''__proto__'')
                   client_state = Returned state'
         \<and> gs_powerUps state' = defaultPowerUps \<and> gs_powerUpsProto state' = Some 7"
  proof -
    obtain state' where
      s: "power_up_used ''player2_bbbb'' 1000 (inherited_message ''__proto__'')
            client_state = Returned state'"
      using message_handled [OF pe] by blast
    have p: "pm_player_id (inherited_message ''__proto__'') = ''player2_bbbb''"
      "pm_power_up_id (inherited_message ''__proto__'') = ''__proto__''"
      "pm_remaining_uses (inherited_message ''__proto__'') = 7"
      "defaultPowerUps ''__proto__'' = None"
      by (simp_all add: inherited_message_def defaultPowerUps_def)
    have "gs_powerUps state' = defaultPowerUps \<and> gs_powerUpsProto state' = Some 7"
      using power_up_keeps_turn [where clientId = "''player2_bbbb''" and t = 1000
          and message = "inherited_message ''__proto__''" and state = client_state
          and state' = state', THEN conjunct2] s
      by (simp add: inv p)
    then show ?thesis using s by blast
  qed
  have e: "\<exists>state'. power_up_used ''player1_aaaa'' 1000 bomb_message client_state
                   = Returned state'
         \<and> gs_powerUps state' = defaultPowerUps"
  proof -
    obtain state' where
      s: "power_up_used ''player1_aaaa'' 1000 bomb_message client_state = Returned state'"
      using bomb_message_handled by blast
    have p: "pm_player_id bomb_message \<noteq> ''player1_aaaa''"
      by (simp add: bomb_message_def)
    have "gs_powerUps state' = defaultPowerUps"
      using power_up_keeps_turn [where clientId = "''player1_aaaa''" and t = 1000
          and message = bomb_message and state = client_state and state' = state',
          THEN conjunct2] s
      by (simp add: inv p)
    then show ?thesis using s by blast
  qed
  show ?thesis using k a b c d e by blast
qed

text \<open>
  The claim as stated fails. The first player holds the turn and the second is next;
  after the first player's column bomb the first player still holds the turn, and
  after a double drop with room in both columns the turn has advanced twice and is
  back at the first player. On the client of the second player, the message about its
  own column bomb leaves \<open>isMyTurn\<close> set.
\<close>

theorem power_up_turn_counterexample:
  "currentTurn demo_room = ''player1_aaaa'' \<and> getNextPlayer demo_room = Returned ''player2_bbbb''
   \<and> fst (usePowerUp demo_room ''player1_aaaa'' (bomb_draws 3) 1)
       = Returned (Some ''column_bomb'', no_effect\<lparr>bombed := True, eff_column := Some 3\<rparr>)
   \<and> currentTurn (snd (usePowerUp demo_room ''player1_aaaa'' (bomb_draws 3) 1))
       = ''player1_aaaa''
   \<and> fst (usePowerUp demo_room ''player1_aaaa'' (double_drop_draws 2 3) 1)
       = Returned (Some ''double_drop'',
           no_effect\<lparr>drop1 := Some \<lparr>column = 2, row = 0\<rparr>,
                      drop2 := Some \<lparr>column = 3, row = 0\<rparr>\<rparr>)
   \<and> currentTurn (snd (usePowerUp demo_room ''player1_aaaa'' (double_drop_draws 2 3) 1))
       = ''player1_aaaa''
   \<and> gs_isMyTurn client_state
   \<and> (case power_up_used ''player2_bbbb'' 1000 bomb_message client_state of
         Returned state' \<Rightarrow> gs_isMyTurn state'
       | Throws \<Rightarrow> False)"
proof -
  have a: "currentTurn demo_room = ''player1_aaaa''
           \<and> getNextPlayer demo_room = Returned ''player2_bbbb''"
    by (simp add: getNextPlayer_def demo_room_def demo_players_def)
  have b: "usePowerUp demo_room ''player1_aaaa'' (bomb_draws 3) 1
             = (Returned (Some ''column_bomb'', no_effect\<lparr>bombed := True, eff_column := Some 3\<rparr>),
                demo_room\<lparr>board := (board demo_room)(3 \<mapsto> []), lastEventTime := 1,
                           eventCount := 1\<rparr>)"
    by (simp add: usePowerUp_def Let_def finishPowerUp_def bomb_draws_def js_nth_def
        POWER_UP_TYPES_def demo_room_def)
  have c: "usePowerUp demo_room ''player1_aaaa'' (double_drop_draws 2 3) 1
             = (Returned (Some ''double_drop'',
                   no_effect\<lparr>drop1 := Some \<lparr>column = 2, row = 0\<rparr>,
                              drop2 := Some \<lparr>column = 3, row = 0\<rparr>\<rparr>),
                demo_room\<lparr>board := (board demo_room)(2 \<mapsto> [''player1_aaaa''],
                                                          3 \<mapsto> [''player1_aaaa'']),
                           currentTurn := ''player1_aaaa'', lastEventTime := 1,
                           eventCount := 3\<rparr>)"
    by (simp add: usePowerUp_def Let_def finishPowerUp_def double_drop_draws_def js_nth_def
        POWER_UP_TYPES_def makeMove_def getNextPlayer_def demo_room_def demo_players_def
        emptyBoard_def)
  obtain state' where
    s: "power_up_used ''player2_bbbb'' 1000 bomb_message client_state = Returned state'"
    using bomb_message_handled by blast
  have m: "gs_isMyTurn client_state" by (simp add: client_state_def)
  have d: "gs_isMyTurn state'" using power_up_used_fields [OF s] m by simp
  show ?thesis using a b c s d m by simp
qed

section \<open>The end of a simulated game\<close>


















end
